theory Spec2Isabelle
  imports Complex_Main "HOL-Library.Char_ord" "HOL-Library.List_Lexorder"
begin

section \<open>Data model (prisma/schema.prisma)\<close>

text \<open>
  The two enums of the schema, and the two tables as records. Decimal values (balances
  and amounts) are rationals: the arithmetic and the comparisons of decimal.js are exact
  on them. What a \<open>Decimal(20, 8)\<close> column keeps of a value written to it is
  \<open>decimal_20_8\<close> below. The row id (cuid), the metadata column and the timestamps
  of a transaction are never read by the wallet service and are left out; so are the
  timestamps of a wallet.
\<close>

datatype TransactionType = DEPOSIT | WITHDRAWAL | TRANSFER_OUT | TRANSFER_IN

datatype TransactionStatus = PENDING | COMPLETED | CANCELLED | FAILED

record Wallet =
  wallet_id :: string
  userId :: string
  balance :: rat
  isActive :: bool
  version :: int

record Transaction =
  transactionId :: string
  referenceId :: "string option"
  walletId :: string
  destinationWalletId :: "string option"
  amount :: rat
  txType :: TransactionType
  status :: TransactionStatus
  description :: "string option"

text \<open>
  Everything the service throws. A NestJS exception carries its message; an error raised
  by the Prisma client carries its code (\<open>error.code\<close>). \<open>QueueError\<close> is the error
  with which \<open>transactionQueue.add\<close> rejects (it has no \<open>code\<close> the service looks
  at). \<open>ThrownUndefined\<close> is what \<open>throw lastError\<close> throws when no attempt was ever
  made.
\<close>

datatype error =
    NotFoundException string
  | BadRequestException string
  | ConflictException string
  | PrismaError string
  | QueueError string
  | ThrownUndefined

fun code :: "error \<Rightarrow> string option" where
  "code (PrismaError c) = Some c"
| "code _ = None"

text \<open>The payloads put on the \<open>transaction\<close> queue, by job name.\<close>

datatype job =
    deposit_job string rat "string option" string
  | withdrawal_job string rat "string option" string
  | transfer_job string string rat "string option" string

text \<open>
  The state the service works on: the two tables, the Redis keys it writes, and the jobs
  added to the queue, in order (a job stays listed when it is delivered).
  \<open>wallet_writes\<close> is a trace, not program state: the ids of the wallet rows written by
  \<open>prisma.wallet.update\<close>, in statement order (the order in which a unit of work takes
  its row locks).
\<close>

record state =
  wallets :: "Wallet list"
  transactions :: "Transaction list"
  redis :: "(string \<times> rat) list"
  transactionQueue :: "job list"
  wallet_writes :: "string list"

section \<open>The store and the cache, at the calls the service makes\<close>

text \<open>
  The columns \<open>balance\<close> and \<open>amount\<close> are \<open>Decimal(20, 8)\<close>: a value written to
  one of them is rounded to 8 decimal places (half away from zero), and the write is
  refused when the rounded value needs more than 12 digits before the point; the Prisma
  client then raises its "value out of range" error, whose code is P2020. \<open>version\<close> is
  an \<open>Int\<close> column (32 bits), with the same error outside its range.
\<close>

definition round8 :: "rat \<Rightarrow> rat" where
  "round8 x =
     (if 0 \<le> x then of_int \<lfloor>x * 100000000 + 1 / 2\<rfloor> / 100000000
      else - (of_int \<lfloor>- x * 100000000 + 1 / 2\<rfloor> / 100000000))"

definition in_decimal_20_8 :: "rat \<Rightarrow> bool" where
  "in_decimal_20_8 x \<longleftrightarrow> \<bar>round8 x\<bar> < 1000000000000"

definition in_int4 :: "int \<Rightarrow> bool" where
  "in_int4 v \<longleftrightarrow> - 2147483648 \<le> v \<and> v \<le> 2147483647"

text \<open>Whether a wallet row fits its columns, and the row as the table keeps it.\<close>

definition wallet_fits :: "Wallet \<Rightarrow> bool" where
  "wallet_fits w \<longleftrightarrow> in_decimal_20_8 (balance w) \<and> in_int4 (version w)"

definition wallet_stored :: "Wallet \<Rightarrow> Wallet" where
  "wallet_stored w = w\<lparr>balance := round8 (balance w)\<rparr>"

text \<open>The same for a transaction row.\<close>

definition transaction_stored :: "Transaction \<Rightarrow> Transaction" where
  "transaction_stored t = t\<lparr>amount := round8 (amount t)\<rparr>"

text \<open>\<open>prisma.wallet.findFirst({ where: { id, isActive: true } })\<close>\<close>

definition wallet_findFirst_active :: "string \<Rightarrow> Wallet list \<Rightarrow> Wallet option" where
  "wallet_findFirst_active wid ws = find (\<lambda>w. wallet_id w = wid \<and> isActive w) ws"

text \<open>\<open>prisma.wallet.findUnique({ where: { id } })\<close>\<close>

definition wallet_findUnique :: "string \<Rightarrow> Wallet list \<Rightarrow> Wallet option" where
  "wallet_findUnique wid ws = find (\<lambda>w. wallet_id w = wid) ws"

text \<open>\<open>prisma.wallet.findMany({ where: { id: { in: ids } } })\<close>\<close>

definition wallet_findMany_in :: "string list \<Rightarrow> Wallet list \<Rightarrow> Wallet list" where
  "wallet_findMany_in ids ws = filter (\<lambda>w. wallet_id w \<in> set ids) ws"

text \<open>
  \<open>prisma.wallet.update({ where: { id, version }, data })\<close>: the row with this id is
  written when its version is still the one given, and the updated row is returned, as
  the table keeps it. When no row matches, the Prisma client raises its "record to
  update not found" error, whose code is P2025; when the new values do not fit the
  columns, P2020, and nothing is written.
\<close>

definition wallet_update ::
  "string \<Rightarrow> int \<Rightarrow> (Wallet \<Rightarrow> Wallet) \<Rightarrow> state \<Rightarrow> error + (Wallet \<times> state)" where
  "wallet_update wid v f s =
     (case find (\<lambda>w. wallet_id w = wid \<and> version w = v) (wallets s) of
        None \<Rightarrow> Inl (PrismaError ''P2025'')
      | Some w \<Rightarrow>
          if \<not> wallet_fits (f w) then Inl (PrismaError ''P2020'')
          else
            Inr (wallet_stored (f w),
                 s\<lparr>wallets := map (\<lambda>w'. if wallet_id w' = wid \<and> version w' = v
                                         then wallet_stored (f w') else w')
                                  (wallets s),
                   wallet_writes := wallet_writes s @ [wid]\<rparr>))"

text \<open>\<open>prisma.wallet.update({ where: { id }, data })\<close>, as deactivateWallet calls it.\<close>

definition wallet_update_by_id ::
  "string \<Rightarrow> (Wallet \<Rightarrow> Wallet) \<Rightarrow> state \<Rightarrow> error + (Wallet \<times> state)" where
  "wallet_update_by_id wid f s =
     (case find (\<lambda>w. wallet_id w = wid) (wallets s) of
        None \<Rightarrow> Inl (PrismaError ''P2025'')
      | Some w \<Rightarrow>
          Inr (f w,
               s\<lparr>wallets := map (\<lambda>w'. if wallet_id w' = wid then f w' else w') (wallets s),
                 wallet_writes := wallet_writes s @ [wid]\<rparr>))"

text \<open>\<open>prisma.transaction.findUnique({ where: { transactionId } })\<close>\<close>

definition transaction_findUnique :: "string \<Rightarrow> Transaction list \<Rightarrow> Transaction option" where
  "transaction_findUnique tid ts = find (\<lambda>t. transactionId t = tid) ts"

text \<open>\<open>prisma.transaction.findMany({ where: { referenceId } })\<close>\<close>

definition transaction_findMany_ref :: "string \<Rightarrow> Transaction list \<Rightarrow> Transaction list" where
  "transaction_findMany_ref rid ts = filter (\<lambda>t. referenceId t = Some rid) ts"

text \<open>
  The constraints of the transactions table that an insert can violate: the unique
  \<open>transaction_id\<close> (P2002) and the two foreign keys into wallets (P2003).
\<close>

definition insert_error :: "Wallet list \<Rightarrow> Transaction list \<Rightarrow> Transaction \<Rightarrow> error option" where
  "insert_error ws ts t =
     (if transactionId t \<in> set (map transactionId ts) then Some (PrismaError ''P2002'')
      else if walletId t \<notin> set (map wallet_id ws) then Some (PrismaError ''P2003'')
      else (case destinationWalletId t of
              None \<Rightarrow> None
            | Some d \<Rightarrow> if d \<in> set (map wallet_id ws) then None
                        else Some (PrismaError ''P2003'')))"

text \<open>
  \<open>prisma.transaction.create({ data })\<close>: the row is returned as the table keeps it.
  An amount that does not fit its column is refused before the constraints are looked at.
\<close>

definition transaction_create :: "Transaction \<Rightarrow> state \<Rightarrow> error + (Transaction \<times> state)" where
  "transaction_create t s =
     (if \<not> in_decimal_20_8 (amount t) then Inl (PrismaError ''P2020'')
      else
        (case insert_error (wallets s) (transactions s) t of
           Some e \<Rightarrow> Inl e
         | None \<Rightarrow>
             Inr (transaction_stored t,
                  s\<lparr>transactions := transactions s @ [transaction_stored t]\<rparr>)))"

text \<open>
  \<open>prisma.$transaction([create a, create b])\<close>: the batch form runs both inserts in one
  database transaction. When either insert fails nothing is written.
\<close>

definition transaction_create_pair ::
  "Transaction \<Rightarrow> Transaction \<Rightarrow> state \<Rightarrow> error + (Transaction list \<times> state)" where
  "transaction_create_pair a b s =
     (case transaction_create a s of
        Inl e \<Rightarrow> Inl e
      | Inr (a', s1) \<Rightarrow>
          (case transaction_create b s1 of
             Inl e \<Rightarrow> Inl e
           | Inr (b', s2) \<Rightarrow> Inr ([a', b'], s2)))"

text \<open>\<open>prisma.transaction.updateMany({ where, data: { status } })\<close>\<close>

definition transaction_updateMany ::
  "(Transaction \<Rightarrow> bool) \<Rightarrow> TransactionStatus \<Rightarrow> state \<Rightarrow> state" where
  "transaction_updateMany P st s =
     s\<lparr>transactions := map (\<lambda>t. if P t then t\<lparr>status := st\<rparr> else t) (transactions s)\<rparr>"

text \<open>
  Redis, as a list of keys with their values. The service stores
  \<open>JSON.stringify(balance.toString())\<close> and reads it back with \<open>new Decimal(JSON.parse(...))\<close>,
  which gives the decimal back, so the value kept here is the decimal. The expiry of a
  key (300 seconds) is not part of a state; a key that has expired is a key that is absent.
\<close>

definition cache_key :: "string \<Rightarrow> string" where
  "cache_key wid = ''wallet_balance_'' @ wid"

definition redis_get :: "string \<Rightarrow> (string \<times> rat) list \<Rightarrow> rat option" where
  "redis_get k kvs = map_of kvs k"

definition redis_del :: "string \<Rightarrow> (string \<times> rat) list \<Rightarrow> (string \<times> rat) list" where
  "redis_del k kvs = filter (\<lambda>kv. fst kv \<noteq> k) kvs"

definition redis_set :: "string \<Rightarrow> rat \<Rightarrow> (string \<times> rat) list \<Rightarrow> (string \<times> rat) list" where
  "redis_set k v kvs = (k, v) # redis_del k kvs"

definition cacheWalletBalance :: "string \<Rightarrow> rat \<Rightarrow> state \<Rightarrow> state" where
  "cacheWalletBalance wid b s = s\<lparr>redis := redis_set (cache_key wid) b (redis s)\<rparr>"

definition invalidateWalletCache :: "string \<Rightarrow> state \<Rightarrow> state" where
  "invalidateWalletCache wid s = s\<lparr>redis := redis_del (cache_key wid) (redis s)\<rparr>"

section \<open>WalletService: the request side\<close>

record CreateWalletDto =
  cw_userId :: string
  cw_initialBalance :: "rat option"

record DepositFundsDto =
  dep_walletId :: string
  dep_amount :: rat
  dep_description :: "string option"
  dep_transactionId :: "string option"

record WithdrawFundsDto =
  wd_walletId :: string
  wd_amount :: rat
  wd_description :: "string option"
  wd_transactionId :: "string option"

record TransferFundsDto =
  tr_sourceWalletId :: string
  tr_destinationWalletId :: string
  tr_amount :: rat
  tr_description :: "string option"
  tr_referenceId :: string

text \<open>
  createWallet. The id of the new row is generated by the store (cuid) and is an argument
  here. A second wallet for the same user violates the unique index on userId, which the
  service turns into ConflictException; any other store error is rethrown as it is. The
  cache is given \<open>initialBalance\<close>, the value of the request, not the balance of the row.
\<close>

definition createWallet ::
  "CreateWalletDto \<Rightarrow> string \<Rightarrow> state \<Rightarrow> (error + Wallet) \<times> state" where
  "createWallet dto new_id s =
     (let initialBalance = (case cw_initialBalance dto of Some b \<Rightarrow> b | None \<Rightarrow> 0) in
      if \<not> in_decimal_20_8 initialBalance
        then (Inl (PrismaError ''P2020''), s)
      else if cw_userId dto \<in> set (map userId (wallets s))
        then (Inl (ConflictException ''User already has a wallet''), s)
      else if new_id \<in> set (map wallet_id (wallets s))
        then (Inl (PrismaError ''P2002''), s)
      else
        (let wallet = wallet_stored
                        \<lparr>wallet_id = new_id, userId = cw_userId dto, balance = initialBalance,
                         isActive = True, version = 0\<rparr>
         in (Inr wallet,
             cacheWalletBalance new_id initialBalance (s\<lparr>wallets := wallets s @ [wallet]\<rparr>))))"

definition getWallet :: "string \<Rightarrow> state \<Rightarrow> error + Wallet" where
  "getWallet wid s =
     (case wallet_findFirst_active wid (wallets s) of
        None \<Rightarrow> Inl (NotFoundException ''Wallet not found'')
      | Some wallet \<Rightarrow> Inr wallet)"

text \<open>
  getWalletBalance: the cached value when the key is there (the stored string is never
  empty, so it is truthy), the store otherwise, filling the cache.
\<close>

definition getWalletBalance :: "string \<Rightarrow> state \<Rightarrow> (error + rat) \<times> state" where
  "getWalletBalance wid s =
     (case redis_get (cache_key wid) (redis s) of
        Some cachedBalance \<Rightarrow> (Inr cachedBalance, s)
      | None \<Rightarrow>
          (case getWallet wid s of
             Inl e \<Rightarrow> (Inl e, s)
           | Inr wallet \<Rightarrow> (Inr (balance wallet), cacheWalletBalance wid (balance wallet) s)))"

text \<open>
  \<open>await this.transactionQueue.add(name, data)\<close>: the job is added, unless the queue
  rejects (its Redis cannot be reached); \<open>rejects\<close> is the error it then throws.
\<close>

definition transactionQueue_add :: "job \<Rightarrow> error option \<Rightarrow> state \<Rightarrow> error + state" where
  "transactionQueue_add j rejects s =
     (case rejects of
        Some e \<Rightarrow> Inl e
      | None \<Rightarrow> Inr (s\<lparr>transactionQueue := transactionQueue s @ [j]\<rparr>))"

text \<open>
  depositFunds. \<open>uuid\<close> is the value \<open>uuidv4()\<close> returns, used when the request carries no
  transactionId; \<open>rejects\<close> is what the queue does. The row is created before the job
  is added, and nothing undoes it when the queue rejects.
\<close>

definition depositFunds ::
  "DepositFundsDto \<Rightarrow> string \<Rightarrow> error option \<Rightarrow> state \<Rightarrow> (error + Transaction) \<times> state" where
  "depositFunds dto uuid rejects s =
     (let tid = (case dep_transactionId dto of Some t \<Rightarrow> t | None \<Rightarrow> uuid) in
      case transaction_findUnique tid (transactions s) of
        Some existingTransaction \<Rightarrow> (Inr existingTransaction, s)
      | None \<Rightarrow>
          (case getWallet (dep_walletId dto) s of
             Inl e \<Rightarrow> (Inl e, s)
           | Inr _ \<Rightarrow>
               (case transaction_create
                       \<lparr>transactionId = tid, referenceId = None, walletId = dep_walletId dto,
                        destinationWalletId = None, amount = dep_amount dto, txType = DEPOSIT,
                        status = PENDING, description = dep_description dto\<rparr> s of
                  Inl e \<Rightarrow> (Inl e, s)
                | Inr (transaction, s1) \<Rightarrow>
                    (case transactionQueue_add
                            (deposit_job (dep_walletId dto) (dep_amount dto)
                               (dep_description dto) tid) rejects s1 of
                       Inl e \<Rightarrow> (Inl e, s1)
                     | Inr s2 \<Rightarrow> (Inr transaction, s2)))))"

definition withdrawFunds ::
  "WithdrawFundsDto \<Rightarrow> string \<Rightarrow> error option \<Rightarrow> state \<Rightarrow> (error + Transaction) \<times> state" where
  "withdrawFunds dto uuid rejects s =
     (let tid = (case wd_transactionId dto of Some t \<Rightarrow> t | None \<Rightarrow> uuid) in
      case transaction_findUnique tid (transactions s) of
        Some existingTransaction \<Rightarrow> (Inr existingTransaction, s)
      | None \<Rightarrow>
          (case getWalletBalance (wd_walletId dto) s of
             (Inl e, s0) \<Rightarrow> (Inl e, s0)
           | (Inr bal, s0) \<Rightarrow>
               if bal < wd_amount dto then (Inl (BadRequestException ''Insufficient funds''), s0)
               else
                 (case transaction_create
                         \<lparr>transactionId = tid, referenceId = None, walletId = wd_walletId dto,
                          destinationWalletId = None, amount = wd_amount dto,
                          txType = WITHDRAWAL, status = PENDING,
                          description = wd_description dto\<rparr> s0 of
                    Inl e \<Rightarrow> (Inl e, s0)
                  | Inr (transaction, s1) \<Rightarrow>
                      (case transactionQueue_add
                              (withdrawal_job (wd_walletId dto) (wd_amount dto)
                                 (wd_description dto) tid) rejects s1 of
                         Inl e \<Rightarrow> (Inl e, s1)
                       | Inr s2 \<Rightarrow> (Inr transaction, s2)))))"

text \<open>
  transferFunds. \<open>uuid1\<close> and \<open>uuid2\<close> are the two values \<open>uuidv4()\<close> returns for the
  two rows.
\<close>

definition transferFunds ::
  "TransferFundsDto \<Rightarrow> string \<Rightarrow> string \<Rightarrow> error option \<Rightarrow> state
     \<Rightarrow> (error + Transaction list) \<times> state" where
  "transferFunds dto uuid1 uuid2 rejects s =
     (let existingTransactions = transaction_findMany_ref (tr_referenceId dto) (transactions s) in
      if length existingTransactions > 0 then (Inr existingTransactions, s)
      else
        (case getWallet (tr_sourceWalletId dto) s of
           Inl e \<Rightarrow> (Inl e, s)
         | Inr _ \<Rightarrow>
        (case getWallet (tr_destinationWalletId dto) s of
           Inl e \<Rightarrow> (Inl e, s)
         | Inr _ \<Rightarrow>
        (case getWalletBalance (tr_sourceWalletId dto) s of
           (Inl e, s0) \<Rightarrow> (Inl e, s0)
         | (Inr bal, s0) \<Rightarrow>
             if bal < tr_amount dto then (Inl (BadRequestException ''Insufficient funds''), s0)
             else
               (case transaction_create_pair
                       \<lparr>transactionId = uuid1, referenceId = Some (tr_referenceId dto),
                        walletId = tr_sourceWalletId dto,
                        destinationWalletId = Some (tr_destinationWalletId dto),
                        amount = tr_amount dto, txType = TRANSFER_OUT, status = PENDING,
                        description = tr_description dto\<rparr>
                       \<lparr>transactionId = uuid2, referenceId = Some (tr_referenceId dto),
                        walletId = tr_destinationWalletId dto,
                        destinationWalletId = Some (tr_sourceWalletId dto),
                        amount = tr_amount dto, txType = TRANSFER_IN, status = PENDING,
                        description = tr_description dto\<rparr> s0 of
                  Inl e \<Rightarrow> (Inl e, s0)
                | Inr (txs, s1) \<Rightarrow>
                    (case transactionQueue_add
                            (transfer_job (tr_sourceWalletId dto) (tr_destinationWalletId dto)
                               (tr_amount dto) (tr_description dto) (tr_referenceId dto))
                            rejects s1 of
                       Inl e \<Rightarrow> (Inl e, s1)
                     | Inr s2 \<Rightarrow> (Inr txs, s2)))))))"

definition deactivateWallet :: "string \<Rightarrow> state \<Rightarrow> (error + Wallet) \<times> state" where
  "deactivateWallet wid s =
     (case getWallet wid s of
        Inl e \<Rightarrow> (Inl e, s)
      | Inr _ \<Rightarrow>
          (case getWalletBalance wid s of
             (Inl e, s0) \<Rightarrow> (Inl e, s0)
           | (Inr bal, s0) \<Rightarrow>
               if bal > 0
                 then (Inl (BadRequestException ''Cannot deactivate wallet with non-zero balance''), s0)
               else
                 (case wallet_update_by_id wid (\<lambda>w. w\<lparr>isActive := False\<rparr>) s0 of
                    Inl e \<Rightarrow> (Inl e, s0)
                  | Inr (updatedWallet, s1) \<Rightarrow> (Inr updatedWallet, invalidateWalletCache wid s1))))"

section \<open>PrismaService.executeTransaction\<close>

text \<open>
  What the rest of the world does during one attempt of a unit of work. The service
  runs beside other workers and on a store that can fail, so each attempt is given one
  event:
  \<^item> \<open>Quiet\<close>: nothing happens;
  \<^item> \<open>StoreFault c\<close>: the store raises the error with code \<open>c\<close> before the unit of
    work has written anything (a deadlock or write conflict is P2034, a transaction
    that could not start or timed out is P2028);
  \<^item> \<open>CommitFault c\<close>: the callback runs to its end and the commit then fails with
    code \<open>c\<close>; the store rolls back, but what the callback wrote to Redis stays;
  \<^item> \<open>OtherCommit wid d\<close>: between this unit's read of the wallets and its first
    update, another unit of work commits a balance change of \<open>d\<close> on wallet \<open>wid\<close>
    (under ReadCommitted the update then sees the new version; the balance is kept as
    the column keeps it).
\<close>

datatype event = Quiet | StoreFault string | CommitFault string | OtherCommit string rat

definition other_commit :: "event \<Rightarrow> state \<Rightarrow> state" where
  "other_commit ev s =
     (case ev of
        OtherCommit wid d \<Rightarrow>
          s\<lparr>wallets := map (\<lambda>w. if wallet_id w = wid
                                  then w\<lparr>balance := round8 (balance w + d), version := version w + 1\<rparr>
                                  else w) (wallets s)\<rparr>
      | _ \<Rightarrow> s)"

text \<open>
  A unit of work is the callback given to \<open>$transaction\<close>: it gets what the environment
  does after its reads, and the state; it fails, or returns a value and the state it
  leaves. \<open>prisma_transaction\<close> is \<open>this.$transaction(fn, ...)\<close>: when the callback
  throws, its writes to the store are rolled back.
\<close>

type_synonym 'a unit_of_work = "(state \<Rightarrow> state) \<Rightarrow> state \<Rightarrow> error + ('a \<times> state)"

definition prisma_transaction :: "'a unit_of_work \<Rightarrow> event \<Rightarrow> state \<Rightarrow> (error + 'a) \<times> state" where
  "prisma_transaction fn ev s =
     (case ev of
        StoreFault c \<Rightarrow> (Inl (PrismaError c), s)
      | CommitFault c \<Rightarrow>
          (case fn (\<lambda>x. x) s of
             Inl e \<Rightarrow> (Inl e, s)
           | Inr (r, s') \<Rightarrow> (Inl (PrismaError c), s\<lparr>redis := redis s'\<rparr>))
      | _ \<Rightarrow>
          (case fn (other_commit ev) s of
             Inl e \<Rightarrow> (Inl e, other_commit ev s)
           | Inr (r, s') \<Rightarrow> (Inr r, s')))"

text \<open>
  The retry loop of executeTransaction, with the loop variable \<open>i\<close> and \<open>lastError\<close>.
  \<open>evs\<close> holds the events of the attempts to come (none left: quiet). \<open>slept\<close> collects
  the arguments of \<open>setTimeout\<close>, in milliseconds.
\<close>

definition retryable :: "error \<Rightarrow> bool" where
  "retryable e = (code e = Some ''P2034'' \<or> code e = Some ''P2028'')"

function executeTransaction_loop ::
  "'a unit_of_work \<Rightarrow> nat \<Rightarrow> nat \<Rightarrow> error option \<Rightarrow> event list \<Rightarrow> nat list \<Rightarrow> state
     \<Rightarrow> (error + 'a) \<times> state \<times> nat list" where
  "executeTransaction_loop fn maxRetries i lastError evs slept s =
     (if i < maxRetries then
        (case prisma_transaction fn (case evs of [] \<Rightarrow> Quiet | ev # _ \<Rightarrow> ev) s of
           (Inr r, s') \<Rightarrow> (Inr r, s', slept)
         | (Inl e, s') \<Rightarrow>
             if retryable e
             then executeTransaction_loop fn maxRetries (i + 1) (Some e) (tl evs)
                    (slept @ [2 ^ i * 100]) s'
             else (Inl e, s', slept))
      else (Inl (case lastError of None \<Rightarrow> ThrownUndefined | Some e \<Rightarrow> e), s, slept))"
  by pat_completeness auto
termination
  by (relation "measure (\<lambda>(fn, maxRetries, i, lastError, evs, slept, s). maxRetries - i)") auto

declare executeTransaction_loop.simps [simp del]

definition executeTransaction ::
  "'a unit_of_work \<Rightarrow> nat \<Rightarrow> event list \<Rightarrow> state \<Rightarrow> (error + 'a) \<times> state \<times> nat list" where
  "executeTransaction fn maxRetries evs s = executeTransaction_loop fn maxRetries 0 None evs [] s"

section \<open>WalletService: the settlement side\<close>

text \<open>
  The callbacks of the three handlers. Each reads the wallet row(s) first; \<open>env\<close> is
  what happens between that read and the first update.
\<close>

definition deposit_unit :: "string \<Rightarrow> rat \<Rightarrow> string \<Rightarrow> unit unit_of_work" where
  "deposit_unit wid amountDecimal tid env s =
     (case wallet_findUnique wid (wallets s) of
        None \<Rightarrow> Inl (NotFoundException ''Wallet not found'')
      | Some wallet \<Rightarrow>
          (case wallet_update wid (version wallet)
                  (\<lambda>w. w\<lparr>balance := balance w + amountDecimal, version := version w + 1\<rparr>)
                  (env s) of
             Inl e \<Rightarrow> Inl e
           | Inr (updatedWallet, s1) \<Rightarrow>
               Inr ((), cacheWalletBalance wid (balance updatedWallet)
                          (transaction_updateMany (\<lambda>t. transactionId t = tid) COMPLETED s1))))"

definition withdrawal_unit :: "string \<Rightarrow> rat \<Rightarrow> string \<Rightarrow> unit unit_of_work" where
  "withdrawal_unit wid amountDecimal tid env s =
     (case wallet_findUnique wid (wallets s) of
        None \<Rightarrow> Inl (NotFoundException ''Wallet not found'')
      | Some wallet \<Rightarrow>
          if balance wallet < amountDecimal then Inl (BadRequestException ''Insufficient funds'')
          else
            (case wallet_update wid (version wallet)
                    (\<lambda>w. w\<lparr>balance := balance w - amountDecimal, version := version w + 1\<rparr>)
                    (env s) of
               Inl e \<Rightarrow> Inl e
             | Inr (updatedWallet, s1) \<Rightarrow>
                 Inr ((), cacheWalletBalance wid (balance updatedWallet)
                            (transaction_updateMany (\<lambda>t. transactionId t = tid) COMPLETED s1))))"

definition transfer_unit :: "string \<Rightarrow> string \<Rightarrow> rat \<Rightarrow> string \<Rightarrow> unit unit_of_work" where
  "transfer_unit src dst amountDecimal rid env s =
     (let walletIds = sort [src, dst];
          found = wallet_findMany_in walletIds (wallets s)
      in case (find (\<lambda>w. wallet_id w = src) found, find (\<lambda>w. wallet_id w = dst) found) of
           (Some sourceWallet, Some destinationWallet) \<Rightarrow>
             if balance sourceWallet < amountDecimal
               then Inl (BadRequestException ''Insufficient funds'')
             else
               (case wallet_update src (version sourceWallet)
                       (\<lambda>w. w\<lparr>balance := balance w - amountDecimal, version := version w + 1\<rparr>)
                       (env s) of
                  Inl e \<Rightarrow> Inl e
                | Inr (updatedSourceWallet, s1) \<Rightarrow>
                    (case wallet_update dst (version destinationWallet)
                            (\<lambda>w. w\<lparr>balance := balance w + amountDecimal, version := version w + 1\<rparr>)
                            s1 of
                       Inl e \<Rightarrow> Inl e
                     | Inr (updatedDestinationWallet, s2) \<Rightarrow>
                         Inr ((), cacheWalletBalance dst (balance updatedDestinationWallet)
                                    (cacheWalletBalance src (balance updatedSourceWallet)
                                       (transaction_updateMany (\<lambda>t. referenceId t = Some rid)
                                          COMPLETED s2)))))
         | _ \<Rightarrow> Inl (NotFoundException ''One or both wallets not found''))"

text \<open>
  The handlers: the unit of work under executeTransaction (maxRetries defaults to 3),
  and in the catch block the rows of the job's key set to FAILED before the error is
  rethrown. The result carries the delays slept.
\<close>

definition processDeposit ::
  "string \<Rightarrow> rat \<Rightarrow> string \<Rightarrow> event list \<Rightarrow> state \<Rightarrow> (error + unit) \<times> state \<times> nat list" where
  "processDeposit wid amt tid evs s =
     (case executeTransaction (deposit_unit wid amt tid) 3 evs s of
        (Inr _, s', slept) \<Rightarrow> (Inr (), s', slept)
      | (Inl e, s', slept) \<Rightarrow>
          (Inl e, transaction_updateMany (\<lambda>t. transactionId t = tid) FAILED s', slept))"

definition processWithdrawal ::
  "string \<Rightarrow> rat \<Rightarrow> string \<Rightarrow> event list \<Rightarrow> state \<Rightarrow> (error + unit) \<times> state \<times> nat list" where
  "processWithdrawal wid amt tid evs s =
     (case executeTransaction (withdrawal_unit wid amt tid) 3 evs s of
        (Inr _, s', slept) \<Rightarrow> (Inr (), s', slept)
      | (Inl e, s', slept) \<Rightarrow>
          (Inl e, transaction_updateMany (\<lambda>t. transactionId t = tid) FAILED s', slept))"

definition processTransfer ::
  "string \<Rightarrow> string \<Rightarrow> rat \<Rightarrow> string \<Rightarrow> event list \<Rightarrow> state
     \<Rightarrow> (error + unit) \<times> state \<times> nat list" where
  "processTransfer src dst amt rid evs s =
     (case executeTransaction (transfer_unit src dst amt rid) 3 evs s of
        (Inr _, s', slept) \<Rightarrow> (Inr (), s', slept)
      | (Inl e, s', slept) \<Rightarrow>
          (Inl e, transaction_updateMany (\<lambda>t. referenceId t = Some rid) FAILED s', slept))"

text \<open>TransactionProcessor: the handler of each job name.\<close>

fun handle :: "job \<Rightarrow> event list \<Rightarrow> state \<Rightarrow> (error + unit) \<times> state \<times> nat list" where
  "handle (deposit_job wid amt _ tid) evs s = processDeposit wid amt tid evs s"
| "handle (withdrawal_job wid amt _ tid) evs s = processWithdrawal wid amt tid evs s"
| "handle (transfer_job src dst amt _ rid) evs s = processTransfer src dst amt rid evs s"

section \<open>Jobs and calls\<close>

text \<open>The rows a job's handler marks: the where clause of its updateMany.\<close>

definition job_key :: "job \<Rightarrow> Transaction \<Rightarrow> bool" where
  "job_key j t =
     (case j of
        deposit_job _ _ _ tid \<Rightarrow> transactionId t = tid
      | withdrawal_job _ _ _ tid \<Rightarrow> transactionId t = tid
      | transfer_job _ _ _ _ rid \<Rightarrow> referenceId t = Some rid)"

text \<open>
  The calls the service answers, and the state each leaves. A settlement is the delivery
  of a job to its handler, with the events of its attempts.
\<close>

datatype call =
    CreateWallet CreateWalletDto string
  | GetWalletBalance string
  | DepositFunds DepositFundsDto string "error option"
  | WithdrawFunds WithdrawFundsDto string "error option"
  | TransferFunds TransferFundsDto string string "error option"
  | DeactivateWallet string
  | Settle job "event list"

fun perform :: "call \<Rightarrow> state \<Rightarrow> state" where
  "perform (CreateWallet dto new_id) s = snd (createWallet dto new_id s)"
| "perform (GetWalletBalance wid) s = snd (getWalletBalance wid s)"
| "perform (DepositFunds dto uuid rejects) s = snd (depositFunds dto uuid rejects s)"
| "perform (WithdrawFunds dto uuid rejects) s = snd (withdrawFunds dto uuid rejects s)"
| "perform (TransferFunds dto uuid1 uuid2 rejects) s =
     snd (transferFunds dto uuid1 uuid2 rejects s)"
| "perform (DeactivateWallet wid) s = snd (deactivateWallet wid s)"
| "perform (Settle j evs) s = fst (snd (handle j evs s))"

text \<open>The callback a job's handler gives to executeTransaction.\<close>

definition unit_of :: "job \<Rightarrow> unit unit_of_work" where
  "unit_of j =
     (case j of
        deposit_job wid amt _ tid \<Rightarrow> deposit_unit wid amt tid
      | withdrawal_job wid amt _ tid \<Rightarrow> withdrawal_unit wid amt tid
      | transfer_job src dst amt _ rid \<Rightarrow> transfer_unit src dst amt rid)"

text \<open>
  A wallet id is deactivated in a state when it has a row and no row of it is active.
\<close>

definition deactivated :: "string \<Rightarrow> state \<Rightarrow> bool" where
  "deactivated wid s \<longleftrightarrow>
     (\<exists>w \<in> set (wallets s). wallet_id w = wid)
     \<and> (\<forall>w \<in> set (wallets s). wallet_id w = wid \<longrightarrow> \<not> isActive w)"

section \<open>Example states\<close>

text \<open>
  A small store used to run the definitions: two active wallets, a deactivated one, and a
  ledger with a completed deposit, a failed withdrawal and the pending pair of a transfer.
\<close>

definition ledger_example :: "Transaction list" where
  "ledger_example =
     [\<lparr>transactionId = ''tx-1'', referenceId = None, walletId = ''wallet-a'',
       destinationWalletId = None, amount = 50, txType = DEPOSIT, status = COMPLETED,
       description = None\<rparr>,
      \<lparr>transactionId = ''tx-2'', referenceId = None, walletId = ''wallet-a'',
       destinationWalletId = None, amount = 20, txType = WITHDRAWAL, status = FAILED,
       description = None\<rparr>,
      \<lparr>transactionId = ''tx-3'', referenceId = Some ''ref-1'', walletId = ''wallet-a'',
       destinationWalletId = Some ''wallet-b'', amount = 10, txType = TRANSFER_OUT,
       status = PENDING, description = None\<rparr>,
      \<lparr>transactionId = ''tx-4'', referenceId = Some ''ref-1'', walletId = ''wallet-b'',
       destinationWalletId = Some ''wallet-a'', amount = 10, txType = TRANSFER_IN,
       status = PENDING, description = None\<rparr>]"

definition store_example :: state where
  "store_example =
     \<lparr>wallets =
        [\<lparr>wallet_id = ''wallet-a'', userId = ''user-1'', balance = 100, isActive = True,
          version = 1\<rparr>,
         \<lparr>wallet_id = ''wallet-b'', userId = ''user-2'', balance = 0, isActive = True,
          version = 0\<rparr>,
         \<lparr>wallet_id = ''wallet-c'', userId = ''user-3'', balance = 0, isActive = False,
          version = 2\<rparr>],
      transactions = ledger_example,
      redis = [],
      transactionQueue = [],
      wallet_writes = []\<rparr>"

text \<open>
  Two wallets of 100 each, and the pending rows of two transfers between them in opposite
  directions: 10 from wallet-a to wallet-b, 5 from wallet-b to wallet-a.
\<close>

definition cross_example :: state where
  "cross_example =
     \<lparr>wallets =
        [\<lparr>wallet_id = ''wallet-a'', userId = ''user-1'', balance = 100, isActive = True,
          version = 0\<rparr>,
         \<lparr>wallet_id = ''wallet-b'', userId = ''user-2'', balance = 100, isActive = True,
          version = 0\<rparr>],
      transactions =
        [\<lparr>transactionId = ''tx-1'', referenceId = Some ''ref-ab'', walletId = ''wallet-a'',
          destinationWalletId = Some ''wallet-b'', amount = 10, txType = TRANSFER_OUT,
          status = PENDING, description = None\<rparr>,
         \<lparr>transactionId = ''tx-2'', referenceId = Some ''ref-ab'', walletId = ''wallet-b'',
          destinationWalletId = Some ''wallet-a'', amount = 10, txType = TRANSFER_IN,
          status = PENDING, description = None\<rparr>,
         \<lparr>transactionId = ''tx-3'', referenceId = Some ''ref-ba'', walletId = ''wallet-b'',
          destinationWalletId = Some ''wallet-a'', amount = 5, txType = TRANSFER_OUT,
          status = PENDING, description = None\<rparr>,
         \<lparr>transactionId = ''tx-4'', referenceId = Some ''ref-ba'', walletId = ''wallet-a'',
          destinationWalletId = Some ''wallet-b'', amount = 5, txType = TRANSFER_IN,
          status = PENDING, description = None\<rparr>],
      redis = [],
      transactionQueue =
        [transfer_job ''wallet-a'' ''wallet-b'' 10 None ''ref-ab'',
         transfer_job ''wallet-b'' ''wallet-a'' 5 None ''ref-ba''],
      wallet_writes = []\<rparr>"

text \<open>
  A wallet whose cache entry disagrees with the store: the store holds 100, the cache 0.
\<close>

definition stale_example :: state where
  "stale_example =
     \<lparr>wallets =
        [\<lparr>wallet_id = ''wallet-a'', userId = ''user-1'', balance = 100, isActive = True,
          version = 1\<rparr>],
      transactions = [],
      redis = [(''wallet_balance_wallet-a'', 0)],
      transactionQueue = [],
      wallet_writes = []\<rparr>"

section \<open>Facts about the store\<close>

lemma find_distinct_key:
  "distinct (map f xs) \<Longrightarrow> x \<in> set xs \<Longrightarrow> find (\<lambda>y. f y = f x) xs = Some x"
  by (induction xs) (auto simp: image_iff)

text \<open>Rounding to 8 decimal places keeps what has no more than 8.\<close>

lemma half_floor: "\<lfloor>rat_of_int m + 1 / 2\<rfloor> = m"
  by (simp add: floor_unique)

lemma round8_grid: "round8 (of_int n / 100000000) = of_int n / 100000000"
proof (cases "0 \<le> n")
  case True
  then have "0 \<le> rat_of_int n / 100000000" by simp
  then show ?thesis by (simp add: round8_def half_floor)
next
  case False
  then have neg: "\<not> 0 \<le> rat_of_int n / 100000000" by simp
  have "\<lfloor>- rat_of_int n + 1 / 2\<rfloor> = - n"
    using half_floor [of "- n"] by simp
  with neg show ?thesis by (simp add: round8_def)
qed

lemma round8_of_int: "round8 (of_int n) = of_int n"
  using round8_grid [of "n * 100000000"] by simp

lemma round8_numeral: "round8 (numeral k) = numeral k"
  using round8_of_int [of "numeral k"] by simp

lemma round8_0: "round8 0 = 0"
  using round8_of_int [of 0] by simp

lemma round8_round8: "round8 (round8 x) = round8 x"
proof (cases "0 \<le> x")
  case True
  then show ?thesis using round8_grid [of "\<lfloor>x * 100000000 + 1 / 2\<rfloor>"]
    by (simp add: round8_def)
next
  case False
  then show ?thesis using round8_grid [of "- \<lfloor>- x * 100000000 + 1 / 2\<rfloor>"]
    by (simp add: round8_def)
qed

lemma round8_nonneg: "0 \<le> x \<Longrightarrow> 0 \<le> round8 x"
  by (simp add: round8_def)

section \<open>Reading a deactivated wallet\<close>

lemma no_active_row:
  assumes "distinct (map wallet_id ws)" and "w \<in> set ws" and "\<not> isActive w"
  shows "wallet_findFirst_active (wallet_id w) ws = None"
proof -
  have "w' = w" if "w' \<in> set ws" and "wallet_id w' = wallet_id w" for w'
    using assms(1,2) that by (meson distinct_map inj_onD)
  with assms(3) show ?thesis
    unfolding wallet_findFirst_active_def find_None_iff by blast
qed

text \<open>
  Claim C10. A wallet whose row has isActive = false is, for getWallet, the same as a
  wallet that has no row: NotFoundException with the message "Wallet not found". The
  same error comes out of getWalletBalance when the cache has no entry, and out of the
  wallet validation of depositFunds and transferFunds, none of which changes the state.
\<close>

theorem inactive_wallet_not_found:
  assumes "distinct (map wallet_id (wallets s))" and "w \<in> set (wallets s)" and "\<not> isActive w"
  shows "getWallet (wallet_id w) s = Inl (NotFoundException ''Wallet not found'')
       \<and> getWallet (wallet_id w) (s\<lparr>wallets := filter (\<lambda>w'. wallet_id w' \<noteq> wallet_id w) (wallets s)\<rparr>)
           = Inl (NotFoundException ''Wallet not found'')
       \<and> (redis_get (cache_key (wallet_id w)) (redis s) = None \<longrightarrow>
            getWalletBalance (wallet_id w) s = (Inl (NotFoundException ''Wallet not found''), s))
       \<and> (dep_walletId dto = wallet_id w \<and> dep_transactionId dto = Some tid
            \<and> tid \<notin> set (map transactionId (transactions s)) \<longrightarrow>
            depositFunds dto uuid rejects s = (Inl (NotFoundException ''Wallet not found''), s))
       \<and> ((tr_sourceWalletId tdto = wallet_id w \<or> tr_destinationWalletId tdto = wallet_id w)
            \<and> Some (tr_referenceId tdto) \<notin> set (map referenceId (transactions s)) \<longrightarrow>
            transferFunds tdto uuid1 uuid2 rejects s = (Inl (NotFoundException ''Wallet not found''), s))"
proof -
  have gone: "getWallet (wallet_id w) s = Inl (NotFoundException ''Wallet not found'')"
    using no_active_row [OF assms] by (simp add: getWallet_def)
  have absent: "getWallet (wallet_id w)
      (s\<lparr>wallets := filter (\<lambda>w'. wallet_id w' \<noteq> wallet_id w) (wallets s)\<rparr>)
        = Inl (NotFoundException ''Wallet not found'')"
    by (simp add: getWallet_def wallet_findFirst_active_def find_None_iff split: option.splits)
  have bal: "getWalletBalance (wallet_id w) s = (Inl (NotFoundException ''Wallet not found''), s)"
    if "redis_get (cache_key (wallet_id w)) (redis s) = None"
    using that gone by (simp add: getWalletBalance_def)
  have dep: "depositFunds dto uuid rejects s = (Inl (NotFoundException ''Wallet not found''), s)"
    if "dep_walletId dto = wallet_id w" "dep_transactionId dto = Some tid"
       "tid \<notin> set (map transactionId (transactions s))"
  proof -
    have "transaction_findUnique tid (transactions s) = None"
      using that(3) unfolding transaction_findUnique_def find_None_iff by auto
    with that(1,2) gone show ?thesis by (simp add: depositFunds_def)
  qed
  have tr: "transferFunds tdto uuid1 uuid2 rejects s = (Inl (NotFoundException ''Wallet not found''), s)"
    if "tr_sourceWalletId tdto = wallet_id w \<or> tr_destinationWalletId tdto = wallet_id w"
       "Some (tr_referenceId tdto) \<notin> set (map referenceId (transactions s))"
  proof -
    have none: "transaction_findMany_ref (tr_referenceId tdto) (transactions s) = []"
      using that(2) unfolding transaction_findMany_ref_def filter_empty_conv
      by (metis image_eqI list.set_map)
    show ?thesis
    proof (cases "getWallet (tr_sourceWalletId tdto) s")
      case (Inl e)
      then have "e = NotFoundException ''Wallet not found''"
        by (auto simp: getWallet_def split: option.splits)
      with Inl none show ?thesis by (simp add: transferFunds_def)
    next
      case (Inr a)
      with gone that(1) have "tr_destinationWalletId tdto = wallet_id w" by auto
      with Inr gone none show ?thesis by (simp add: transferFunds_def)
    qed
  qed
  from gone absent bal dep tr show ?thesis by blast
qed

theorem inactive_wallet_not_found_witness:
  "getWallet ''wallet-c'' store_example = Inl (NotFoundException ''Wallet not found'')
   \<and> getWalletBalance ''wallet-c'' store_example
       = (Inl (NotFoundException ''Wallet not found''), store_example)
   \<and> depositFunds \<lparr>dep_walletId = ''wallet-c'', dep_amount = 5, dep_description = None,
                    dep_transactionId = Some ''tx-9''\<rparr> ''uuid-1'' None store_example
       = (Inl (NotFoundException ''Wallet not found''), store_example)
   \<and> transferFunds \<lparr>tr_sourceWalletId = ''wallet-a'', tr_destinationWalletId = ''wallet-c'',
                     tr_amount = 5, tr_description = None, tr_referenceId = ''ref-9''\<rparr>
        ''uuid-1'' ''uuid-2'' None store_example
       = (Inl (NotFoundException ''Wallet not found''), store_example)"
  using inactive_wallet_not_found [where s = store_example
      and w = "\<lparr>wallet_id = ''wallet-c'', userId = ''user-3'', balance = 0, isActive = False, version = 2\<rparr>"
      and dto = "\<lparr>dep_walletId = ''wallet-c'', dep_amount = 5, dep_description = None,
        dep_transactionId = Some ''tx-9''\<rparr>" and tid = "''tx-9''"
      and tdto = "\<lparr>tr_sourceWalletId = ''wallet-a'', tr_destinationWalletId = ''wallet-c'',
        tr_amount = 5, tr_description = None, tr_referenceId = ''ref-9''\<rparr>"
      and uuid = "''uuid-1''" and rejects = None and ?uuid1.0 = "''uuid-1''" and ?uuid2.0 = "''uuid-2''"]
  by (simp add: store_example_def ledger_example_def redis_get_def)

section \<open>Replayed requests\<close>

text \<open>
  Claim C2. A deposit or withdrawal request whose transactionId is the one of a row of
  the ledger, and a transfer request whose referenceId is the one of at least one row,
  returns the row(s) found and leaves the whole state as it was: no row is added and no
  job is put on the queue. The unique index on transactionId is assumed of the ledger.
\<close>

theorem idempotent_replay:
  assumes "distinct (map transactionId (transactions s))"
  shows "(t \<in> set (transactions s) \<and> dep_transactionId dto = Some (transactionId t) \<longrightarrow>
            depositFunds dto uuid rejects s = (Inr t, s))
       \<and> (t \<in> set (transactions s) \<and> wd_transactionId wdto = Some (transactionId t) \<longrightarrow>
            withdrawFunds wdto uuid rejects s = (Inr t, s))
       \<and> (Some (tr_referenceId tdto) \<in> set (map referenceId (transactions s)) \<longrightarrow>
            transferFunds tdto uuid1 uuid2 rejects s =
              (Inr (filter (\<lambda>x. referenceId x = Some (tr_referenceId tdto)) (transactions s)), s))"
proof -
  have found: "transaction_findUnique (transactionId t) (transactions s) = Some t"
    if "t \<in> set (transactions s)"
    unfolding transaction_findUnique_def using assms that by (rule find_distinct_key)
  have dep: "depositFunds dto uuid rejects s = (Inr t, s)"
    if "t \<in> set (transactions s)" "dep_transactionId dto = Some (transactionId t)"
    using found [OF that(1)] that(2) by (simp add: depositFunds_def)
  have wd: "withdrawFunds wdto uuid rejects s = (Inr t, s)"
    if "t \<in> set (transactions s)" "wd_transactionId wdto = Some (transactionId t)"
    using found [OF that(1)] that(2) by (simp add: withdrawFunds_def)
  have tr: "transferFunds tdto uuid1 uuid2 rejects s =
      (Inr (filter (\<lambda>x. referenceId x = Some (tr_referenceId tdto)) (transactions s)), s)"
    if "Some (tr_referenceId tdto) \<in> set (map referenceId (transactions s))"
  proof -
    from that obtain x where "x \<in> set (transactions s)" "referenceId x = Some (tr_referenceId tdto)"
      by auto
    then have "filter (\<lambda>x. referenceId x = Some (tr_referenceId tdto)) (transactions s) \<noteq> []"
      by (auto simp: filter_empty_conv)
    then show ?thesis
      by (simp add: transferFunds_def transaction_findMany_ref_def)
  qed
  from dep wd tr show ?thesis by blast
qed

theorem idempotent_replay_witness:
  "depositFunds \<lparr>dep_walletId = ''wallet-a'', dep_amount = 50, dep_description = None,
                  dep_transactionId = Some ''tx-1''\<rparr> ''uuid-1'' None store_example
     = (Inr (ledger_example ! 0), store_example)
   \<and> withdrawFunds \<lparr>wd_walletId = ''wallet-a'', wd_amount = 50, wd_description = None,
                     wd_transactionId = Some ''tx-1''\<rparr> ''uuid-1'' None store_example
     = (Inr (ledger_example ! 0), store_example)
   \<and> transferFunds \<lparr>tr_sourceWalletId = ''wallet-a'', tr_destinationWalletId = ''wallet-b'',
                     tr_amount = 10, tr_description = None, tr_referenceId = ''ref-1''\<rparr>
        ''uuid-1'' ''uuid-2'' None store_example
     = (Inr [ledger_example ! 2, ledger_example ! 3], store_example)"
  using idempotent_replay [where s = store_example and t = "ledger_example ! 0"
      and dto = "\<lparr>dep_walletId = ''wallet-a'', dep_amount = 50, dep_description = None,
                  dep_transactionId = Some ''tx-1''\<rparr>"
      and wdto = "\<lparr>wd_walletId = ''wallet-a'', wd_amount = 50, wd_description = None,
                   wd_transactionId = Some ''tx-1''\<rparr>"
      and tdto = "\<lparr>tr_sourceWalletId = ''wallet-a'', tr_destinationWalletId = ''wallet-b'',
                   tr_amount = 10, tr_description = None, tr_referenceId = ''ref-1''\<rparr>"
      and uuid = "''uuid-1''" and rejects = None and ?uuid1.0 = "''uuid-1''" and ?uuid2.0 = "''uuid-2''"]
  by (simp add: store_example_def ledger_example_def)

section \<open>The two rows of a transfer\<close>

lemma getWalletBalance_store:
  "getWalletBalance wid s = (r, s') \<Longrightarrow>
     wallets s' = wallets s \<and> transactions s' = transactions s
     \<and> transactionQueue s' = transactionQueue s \<and> wallet_writes s' = wallet_writes s"
  by (auto simp: getWalletBalance_def cacheWalletBalance_def split: option.splits sum.splits)

lemma getWallet_Inr:
  "getWallet wid s = Inr w \<Longrightarrow> w \<in> set (wallets s) \<and> wallet_id w = wid \<and> isActive w"
  by (auto simp: getWallet_def wallet_findFirst_active_def find_Some_iff split: option.splits)

lemma transaction_create_pair_cases:
  "(\<exists>e. transaction_create_pair a b s = Inl e) \<or>
   transaction_create_pair a b s
     = Inr ([transaction_stored a, transaction_stored b],
            s\<lparr>transactions := transactions s @ [transaction_stored a, transaction_stored b]\<rparr>)"
  by (auto simp: transaction_create_pair_def transaction_create_def split: option.splits sum.splits)

lemma transaction_create_pair_ok:
  assumes "transactionId a \<notin> set (map transactionId (transactions s))"
      and "transactionId b \<notin> set (map transactionId (transactions s))"
      and "transactionId a \<noteq> transactionId b"
      and "walletId a \<in> set (map wallet_id (wallets s))"
      and "walletId b \<in> set (map wallet_id (wallets s))"
      and "destinationWalletId a = Some (walletId b)"
      and "destinationWalletId b = Some (walletId a)"
      and "in_decimal_20_8 (amount a)" and "in_decimal_20_8 (amount b)"
  shows "transaction_create_pair a b s
     = Inr ([transaction_stored a, transaction_stored b],
            s\<lparr>transactions := transactions s @ [transaction_stored a, transaction_stored b]\<rparr>)"
  using assms
  by (simp add: transaction_create_pair_def transaction_create_def insert_error_def
        transaction_stored_def)

lemma transferFunds_ledger:
  "transactions (snd (transferFunds dto uuid1 uuid2 rejects s)) = transactions s
   \<or> transactions (snd (transferFunds dto uuid1 uuid2 rejects s))
        = transactions s @
            [\<lparr>transactionId = uuid1, referenceId = Some (tr_referenceId dto),
              walletId = tr_sourceWalletId dto,
              destinationWalletId = Some (tr_destinationWalletId dto),
              amount = round8 (tr_amount dto), txType = TRANSFER_OUT, status = PENDING,
              description = tr_description dto\<rparr>,
             \<lparr>transactionId = uuid2, referenceId = Some (tr_referenceId dto),
              walletId = tr_destinationWalletId dto,
              destinationWalletId = Some (tr_sourceWalletId dto),
              amount = round8 (tr_amount dto), txType = TRANSFER_IN, status = PENDING,
              description = tr_description dto\<rparr>]"
proof (cases "getWalletBalance (tr_sourceWalletId dto) s")
  case (Pair r s0)
  note st = getWalletBalance_store [OF Pair]
  from transaction_create_pair_cases
    [of "\<lparr>transactionId = uuid1, referenceId = Some (tr_referenceId dto),
              walletId = tr_sourceWalletId dto,
              destinationWalletId = Some (tr_destinationWalletId dto),
              amount = tr_amount dto, txType = TRANSFER_OUT, status = PENDING,
              description = tr_description dto\<rparr>"
        "\<lparr>transactionId = uuid2, referenceId = Some (tr_referenceId dto),
              walletId = tr_destinationWalletId dto,
              destinationWalletId = Some (tr_sourceWalletId dto),
              amount = tr_amount dto, txType = TRANSFER_IN, status = PENDING,
              description = tr_description dto\<rparr>" s0]
  show ?thesis
    using Pair st
    by (auto simp: transferFunds_def Let_def transactionQueue_add_def transaction_stored_def
          split: sum.splits option.splits)
qed

text \<open>
  Claim C7. transferFunds writes the ledger in one step only: afterwards the ledger is
  either what it was, or what it was followed by exactly two PENDING rows, the
  TRANSFER_OUT row on the source wallet and the TRANSFER_IN row on the destination
  wallet, with the request's referenceId, each naming the other wallet, and the amount
  as the column keeps it; no state with one row of the pair comes out. The pair is
  written when the referenceId is new, both wallets are active, the balance read covers
  the amount, the amount fits its column and the two generated ids are new and
  different. The rows are then returned and the transfer job added, unless the queue
  rejects: in that case the call fails with the queue's error, the two rows stay and
  there is no job. When the second insert of the batch fails (its id is taken), the
  first row is not there either.
\<close>

theorem transfer_rows_atomic:
  fixes dto :: TransferFundsDto
  defines "row_out u \<equiv>
     \<lparr>transactionId = u, referenceId = Some (tr_referenceId dto),
      walletId = tr_sourceWalletId dto, destinationWalletId = Some (tr_destinationWalletId dto),
      amount = round8 (tr_amount dto), txType = TRANSFER_OUT, status = PENDING,
      description = tr_description dto\<rparr>"
  defines "row_in u \<equiv>
     \<lparr>transactionId = u, referenceId = Some (tr_referenceId dto),
      walletId = tr_destinationWalletId dto, destinationWalletId = Some (tr_sourceWalletId dto),
      amount = round8 (tr_amount dto), txType = TRANSFER_IN, status = PENDING,
      description = tr_description dto\<rparr>"
  defines "the_job \<equiv>
     transfer_job (tr_sourceWalletId dto) (tr_destinationWalletId dto)
       (tr_amount dto) (tr_description dto) (tr_referenceId dto)"
  shows "(transactions (snd (transferFunds dto uuid1 uuid2 rejects s)) = transactions s
          \<or> transactions (snd (transferFunds dto uuid1 uuid2 rejects s))
               = transactions s @ [row_out uuid1, row_in uuid2])
       \<and> (Some (tr_referenceId dto) \<notin> set (map referenceId (transactions s))
          \<and> getWallet (tr_sourceWalletId dto) s = Inr ws
          \<and> getWallet (tr_destinationWalletId dto) s = Inr wd
          \<and> fst (getWalletBalance (tr_sourceWalletId dto) s) = Inr bal
          \<and> tr_amount dto \<le> bal
          \<and> in_decimal_20_8 (tr_amount dto)
          \<and> uuid1 \<notin> set (map transactionId (transactions s))
          \<and> uuid2 \<notin> set (map transactionId (transactions s))
          \<and> uuid1 \<noteq> uuid2 \<longrightarrow>
            transactions (snd (transferFunds dto uuid1 uuid2 rejects s))
               = transactions s @ [row_out uuid1, row_in uuid2]
          \<and> (rejects = None \<longrightarrow>
                fst (transferFunds dto uuid1 uuid2 rejects s) = Inr [row_out uuid1, row_in uuid2]
              \<and> transactionQueue (snd (transferFunds dto uuid1 uuid2 rejects s))
                   = transactionQueue s @ [the_job])
          \<and> (\<forall>e. rejects = Some e \<longrightarrow>
                fst (transferFunds dto uuid1 uuid2 rejects s) = Inl e
              \<and> transactionQueue (snd (transferFunds dto uuid1 uuid2 rejects s))
                   = transactionQueue s))
       \<and> (Some (tr_referenceId dto) \<notin> set (map referenceId (transactions s))
          \<and> uuid1 \<notin> set (map transactionId (transactions s))
          \<and> (uuid2 \<in> set (map transactionId (transactions s)) \<or> uuid2 = uuid1) \<longrightarrow>
            transactions (snd (transferFunds dto uuid1 uuid2 rejects s)) = transactions s
          \<and> transactionQueue (snd (transferFunds dto uuid1 uuid2 rejects s)) = transactionQueue s
          \<and> (\<forall>txs. fst (transferFunds dto uuid1 uuid2 rejects s) \<noteq> Inr txs))"
proof (intro conjI impI)
  show "transactions (snd (transferFunds dto uuid1 uuid2 rejects s)) = transactions s
          \<or> transactions (snd (transferFunds dto uuid1 uuid2 rejects s))
               = transactions s @ [row_out uuid1, row_in uuid2]"
    using transferFunds_ledger [of dto uuid1 uuid2 rejects s] by (simp add: row_out_def row_in_def)
next
  assume h: "Some (tr_referenceId dto) \<notin> set (map referenceId (transactions s))
          \<and> getWallet (tr_sourceWalletId dto) s = Inr ws
          \<and> getWallet (tr_destinationWalletId dto) s = Inr wd
          \<and> fst (getWalletBalance (tr_sourceWalletId dto) s) = Inr bal
          \<and> tr_amount dto \<le> bal
          \<and> in_decimal_20_8 (tr_amount dto)
          \<and> uuid1 \<notin> set (map transactionId (transactions s))
          \<and> uuid2 \<notin> set (map transactionId (transactions s))
          \<and> uuid1 \<noteq> uuid2"
  obtain s0 where bal: "getWalletBalance (tr_sourceWalletId dto) s = (Inr bal, s0)"
    using h by (cases "getWalletBalance (tr_sourceWalletId dto) s") auto
  note st = getWalletBalance_store [OF bal]
  have none: "transaction_findMany_ref (tr_referenceId dto) (transactions s) = []"
    using h unfolding transaction_findMany_ref_def filter_empty_conv
    by (metis image_eqI list.set_map)
  have src: "tr_sourceWalletId dto \<in> set (map wallet_id (wallets s0))"
    using getWallet_Inr [of "tr_sourceWalletId dto" s ws] h st by force
  have dst: "tr_destinationWalletId dto \<in> set (map wallet_id (wallets s0))"
    using getWallet_Inr [of "tr_destinationWalletId dto" s wd] h st by force
  have pair: "transaction_create_pair
        \<lparr>transactionId = uuid1, referenceId = Some (tr_referenceId dto),
         walletId = tr_sourceWalletId dto,
         destinationWalletId = Some (tr_destinationWalletId dto),
         amount = tr_amount dto, txType = TRANSFER_OUT, status = PENDING,
         description = tr_description dto\<rparr>
        \<lparr>transactionId = uuid2, referenceId = Some (tr_referenceId dto),
         walletId = tr_destinationWalletId dto,
         destinationWalletId = Some (tr_sourceWalletId dto),
         amount = tr_amount dto, txType = TRANSFER_IN, status = PENDING,
         description = tr_description dto\<rparr> s0
      = Inr ([row_out uuid1, row_in uuid2],
             s0\<lparr>transactions := transactions s0 @ [row_out uuid1, row_in uuid2]\<rparr>)"
    using transaction_create_pair_ok
      [of "\<lparr>transactionId = uuid1, referenceId = Some (tr_referenceId dto),
         walletId = tr_sourceWalletId dto,
         destinationWalletId = Some (tr_destinationWalletId dto),
         amount = tr_amount dto, txType = TRANSFER_OUT, status = PENDING,
         description = tr_description dto\<rparr>" s0
        "\<lparr>transactionId = uuid2, referenceId = Some (tr_referenceId dto),
         walletId = tr_destinationWalletId dto,
         destinationWalletId = Some (tr_sourceWalletId dto),
         amount = tr_amount dto, txType = TRANSFER_IN, status = PENDING,
         description = tr_description dto\<rparr>"]
      h st src dst
    by (simp add: row_out_def row_in_def transaction_stored_def)
  have run: "transferFunds dto uuid1 uuid2 rejects s =
      (case rejects of
         None \<Rightarrow>
           (Inr [row_out uuid1, row_in uuid2],
            s0\<lparr>transactions := transactions s0 @ [row_out uuid1, row_in uuid2],
               transactionQueue := transactionQueue s0 @ [the_job]\<rparr>)
       | Some e \<Rightarrow>
           (Inl e, s0\<lparr>transactions := transactions s0 @ [row_out uuid1, row_in uuid2]\<rparr>))"
    using h none bal pair
    by (simp add: transferFunds_def transactionQueue_add_def the_job_def split: option.splits)
  show "transactions (snd (transferFunds dto uuid1 uuid2 rejects s))
               = transactions s @ [row_out uuid1, row_in uuid2]"
    by (simp add: run st split: option.splits)
  show "fst (transferFunds dto uuid1 uuid2 rejects s) = Inr [row_out uuid1, row_in uuid2]"
    if "rejects = None"
    using that run by simp
  show "transactionQueue (snd (transferFunds dto uuid1 uuid2 rejects s))
               = transactionQueue s @ [the_job]"
    if "rejects = None"
    using that run st by simp
  show "\<forall>e. rejects = Some e \<longrightarrow>
                fst (transferFunds dto uuid1 uuid2 rejects s) = Inl e
              \<and> transactionQueue (snd (transferFunds dto uuid1 uuid2 rejects s))
                   = transactionQueue s"
    using run st by auto
next
  assume h: "Some (tr_referenceId dto) \<notin> set (map referenceId (transactions s))
          \<and> uuid1 \<notin> set (map transactionId (transactions s))
          \<and> (uuid2 \<in> set (map transactionId (transactions s)) \<or> uuid2 = uuid1)"
  have fails: "\<exists>e. transaction_create_pair
        \<lparr>transactionId = uuid1, referenceId = Some (tr_referenceId dto),
         walletId = tr_sourceWalletId dto,
         destinationWalletId = Some (tr_destinationWalletId dto),
         amount = tr_amount dto, txType = TRANSFER_OUT, status = PENDING,
         description = tr_description dto\<rparr>
        \<lparr>transactionId = uuid2, referenceId = Some (tr_referenceId dto),
         walletId = tr_destinationWalletId dto,
         destinationWalletId = Some (tr_sourceWalletId dto),
         amount = tr_amount dto, txType = TRANSFER_IN, status = PENDING,
         description = tr_description dto\<rparr> s0 = Inl e"
    if "transactions s0 = transactions s" for s0
    using h that
    by (auto simp: transaction_create_pair_def transaction_create_def insert_error_def
          transaction_stored_def split: option.splits sum.splits)
  have none: "transaction_findMany_ref (tr_referenceId dto) (transactions s) = []"
    using h unfolding transaction_findMany_ref_def filter_empty_conv
    by (metis image_eqI list.set_map)
  obtain r s0 where bal: "getWalletBalance (tr_sourceWalletId dto) s = (r, s0)"
    by (cases "getWalletBalance (tr_sourceWalletId dto) s") auto
  note st = getWalletBalance_store [OF bal]
  from fails [of s0] st obtain e where pair: "transaction_create_pair
        \<lparr>transactionId = uuid1, referenceId = Some (tr_referenceId dto),
         walletId = tr_sourceWalletId dto,
         destinationWalletId = Some (tr_destinationWalletId dto),
         amount = tr_amount dto, txType = TRANSFER_OUT, status = PENDING,
         description = tr_description dto\<rparr>
        \<lparr>transactionId = uuid2, referenceId = Some (tr_referenceId dto),
         walletId = tr_destinationWalletId dto,
         destinationWalletId = Some (tr_sourceWalletId dto),
         amount = tr_amount dto, txType = TRANSFER_IN, status = PENDING,
         description = tr_description dto\<rparr> s0 = Inl e"
    by blast
  have out: "(\<exists>e. fst (transferFunds dto uuid1 uuid2 rejects s) = Inl e)
      \<and> transactions (snd (transferFunds dto uuid1 uuid2 rejects s)) = transactions s
      \<and> transactionQueue (snd (transferFunds dto uuid1 uuid2 rejects s)) = transactionQueue s"
    using none bal st pair
    by (auto simp: transferFunds_def split: sum.splits)
  from out show "transactions (snd (transferFunds dto uuid1 uuid2 rejects s)) = transactions s"
    by blast
  from out show "transactionQueue (snd (transferFunds dto uuid1 uuid2 rejects s))
      = transactionQueue s"
    by blast
  from out show "\<forall>txs. fst (transferFunds dto uuid1 uuid2 rejects s) \<noteq> Inr txs"
    by auto
qed

theorem transfer_rows_atomic_witness:
  "transactions (snd (transferFunds
          \<lparr>tr_sourceWalletId = ''wallet-a'', tr_destinationWalletId = ''wallet-b'',
           tr_amount = 10, tr_description = None, tr_referenceId = ''ref-2''\<rparr>
          ''uuid-1'' ''uuid-2'' None store_example))
     = ledger_example @
         [\<lparr>transactionId = ''uuid-1'', referenceId = Some ''ref-2'', walletId = ''wallet-a'',
           destinationWalletId = Some ''wallet-b'', amount = 10, txType = TRANSFER_OUT,
           status = PENDING, description = None\<rparr>,
          \<lparr>transactionId = ''uuid-2'', referenceId = Some ''ref-2'', walletId = ''wallet-b'',
           destinationWalletId = Some ''wallet-a'', amount = 10, txType = TRANSFER_IN,
           status = PENDING, description = None\<rparr>]
   \<and> fst (transferFunds \<lparr>tr_sourceWalletId = ''wallet-a'', tr_destinationWalletId = ''wallet-b'',
                        tr_amount = 10, tr_description = None, tr_referenceId = ''ref-2''\<rparr>
          ''uuid-1'' ''uuid-2'' None store_example)
     = Inr [\<lparr>transactionId = ''uuid-1'', referenceId = Some ''ref-2'', walletId = ''wallet-a'',
             destinationWalletId = Some ''wallet-b'', amount = 10, txType = TRANSFER_OUT,
             status = PENDING, description = None\<rparr>,
            \<lparr>transactionId = ''uuid-2'', referenceId = Some ''ref-2'', walletId = ''wallet-b'',
             destinationWalletId = Some ''wallet-a'', amount = 10, txType = TRANSFER_IN,
             status = PENDING, description = None\<rparr>]
   \<and> transactionQueue (snd (transferFunds
          \<lparr>tr_sourceWalletId = ''wallet-a'', tr_destinationWalletId = ''wallet-b'',
           tr_amount = 10, tr_description = None, tr_referenceId = ''ref-2''\<rparr>
          ''uuid-1'' ''uuid-2'' None store_example))
     = [transfer_job ''wallet-a'' ''wallet-b'' 10 None ''ref-2'']"
proof -
  let ?dto = "\<lparr>tr_sourceWalletId = ''wallet-a'', tr_destinationWalletId = ''wallet-b'',
                tr_amount = 10, tr_description = None, tr_referenceId = ''ref-2''\<rparr>"
  note t = transfer_rows_atomic [where s = store_example and dto = ?dto
      and ?uuid1.0 = "''uuid-1''" and ?uuid2.0 = "''uuid-2''" and rejects = None
      and ws = "\<lparr>wallet_id = ''wallet-a'', userId = ''user-1'', balance = 100, isActive = True,
                 version = 1\<rparr>"
      and wd = "\<lparr>wallet_id = ''wallet-b'', userId = ''user-2'', balance = 0, isActive = True,
                 version = 0\<rparr>"
      and bal = 100]
  have pre: "Some (tr_referenceId ?dto) \<notin> set (map referenceId (transactions store_example))
      \<and> getWallet (tr_sourceWalletId ?dto) store_example
          = Inr \<lparr>wallet_id = ''wallet-a'', userId = ''user-1'', balance = 100, isActive = True,
                 version = 1\<rparr>
      \<and> getWallet (tr_destinationWalletId ?dto) store_example
          = Inr \<lparr>wallet_id = ''wallet-b'', userId = ''user-2'', balance = 0, isActive = True,
                 version = 0\<rparr>
      \<and> fst (getWalletBalance (tr_sourceWalletId ?dto) store_example) = Inr 100
      \<and> tr_amount ?dto \<le> 100
      \<and> in_decimal_20_8 (tr_amount ?dto)
      \<and> ''uuid-1'' \<notin> set (map transactionId (transactions store_example))
      \<and> ''uuid-2'' \<notin> set (map transactionId (transactions store_example))
      \<and> ''uuid-1'' \<noteq> ''uuid-2''"
    by (simp add: store_example_def ledger_example_def getWallet_def wallet_findFirst_active_def
          getWalletBalance_def redis_get_def cache_key_def in_decimal_20_8_def round8_numeral)
  from t pre show ?thesis
    by (simp add: round8_numeral store_example_def)
qed

section \<open>The retry loop\<close>

lemma loop_invariant:
  assumes "\<And>ev s r s'. ev \<in> insert Quiet (set evs) \<Longrightarrow> P s \<Longrightarrow> prisma_transaction fn ev s = (r, s') \<Longrightarrow> P s'"
      and "P s"
  shows "P (fst (snd (executeTransaction_loop fn m i le evs slept s)))"
  using assms
proof (induction fn m i le evs slept s rule: executeTransaction_loop.induct)
  case (1 fn m i le evs slept s)
  let ?ev = "case evs of [] \<Rightarrow> Quiet | ev # _ \<Rightarrow> ev"
  have ev: "?ev \<in> insert Quiet (set evs)" by (cases evs) auto
  have tl: "insert Quiet (set (tl evs)) \<subseteq> insert Quiet (set evs)" by (cases evs) auto
  show ?case
  proof (cases "i < m")
    case False
    with "1.prems"(2) show ?thesis by (simp add: executeTransaction_loop.simps)
  next
    case True
    obtain r s' where tx: "prisma_transaction fn ?ev s = (r, s')" by (cases "prisma_transaction fn ?ev s")
    have P': "P s'" using "1.prems"(1) [OF ev "1.prems"(2) tx] .
    show ?thesis
    proof (cases r)
      case (Inr a)
      with True tx P' show ?thesis by (simp add: executeTransaction_loop.simps)
    next
      case (Inl e)
      show ?thesis
      proof (cases "retryable e")
        case False
        with True tx P' Inl show ?thesis by (simp add: executeTransaction_loop.simps)
      next
        case retry: True
        have "P (fst (snd (executeTransaction_loop fn m (i + 1) (Some e) (tl evs)
                 (slept @ [2 ^ i * 100]) s')))"
          using "1.IH" [OF True tx [symmetric] Inl retry _ P'] "1.prems"(1) tl by blast
        with True tx Inl retry show ?thesis by (simp add: executeTransaction_loop.simps)
      qed
    qed
  qed
qed


lemma loop_post:
  assumes "\<And>ev s r s'. ev \<in> insert Quiet (set evs) \<Longrightarrow> P s \<Longrightarrow>
             prisma_transaction fn ev s = (r, s') \<Longrightarrow> P s' \<and> Q r s'"
      and "P s" and "i < m"
  shows "P (fst (snd (executeTransaction_loop fn m i le evs slept s)))
       \<and> Q (fst (executeTransaction_loop fn m i le evs slept s))
           (fst (snd (executeTransaction_loop fn m i le evs slept s)))"
  using assms
proof (induction fn m i le evs slept s rule: executeTransaction_loop.induct)
  case (1 fn m i le evs slept s)
  let ?ev = "case evs of [] \<Rightarrow> Quiet | ev # _ \<Rightarrow> ev"
  have ev: "?ev \<in> insert Quiet (set evs)" by (cases evs) auto
  have tl: "insert Quiet (set (tl evs)) \<subseteq> insert Quiet (set evs)" by (cases evs) auto
  note lt = \<open>i < m\<close>
  obtain r s' where tx: "prisma_transaction fn ?ev s = (r, s')"
    by (cases "prisma_transaction fn ?ev s")
  have PQ: "P s' \<and> Q r s'" using "1.prems"(1) [OF ev "1.prems"(2) tx] .
  show ?case
  proof (cases r)
    case (Inr a)
    with lt tx PQ show ?thesis by (simp add: executeTransaction_loop.simps)
  next
    case (Inl e)
    show ?thesis
    proof (cases "retryable e")
      case False
      with lt tx PQ Inl show ?thesis by (simp add: executeTransaction_loop.simps)
    next
      case retry: True
      let ?next = "executeTransaction_loop fn m (i + 1) (Some e) (tl evs) (slept @ [2 ^ i * 100]) s'"
      have unfold: "executeTransaction_loop fn m i le evs slept s = ?next"
        using lt tx Inl retry by (simp add: executeTransaction_loop.simps)
      show ?thesis
      proof (cases "i + 1 < m")
        case True
        have "P (fst (snd ?next)) \<and> Q (fst ?next) (fst (snd ?next))"
          using "1.IH" [OF lt tx [symmetric] Inl retry _ _ True] "1.prems"(1) tl PQ by blast
        then show ?thesis by (simp only: unfold)
      next
        case False
        then have "?next = (Inl e, s', slept @ [2 ^ i * 100])"
          by (simp add: executeTransaction_loop.simps)
        with PQ Inl show ?thesis by (simp add: unfold)
      qed
    qed
  qed
qed




section \<open>The handlers, uniformly\<close>

lemma handle_unfold:
  "handle j evs s =
     (case executeTransaction (unit_of j) 3 evs s of
        (Inr _, s', slept) \<Rightarrow> (Inr (), s', slept)
      | (Inl e, s', slept) \<Rightarrow> (Inl e, transaction_updateMany (job_key j) FAILED s', slept))"
  by (cases j)
    (auto simp: processDeposit_def processWithdrawal_def processTransfer_def unit_of_def
       job_key_def [abs_def] split: prod.splits sum.splits)

lemma wallet_update_Inr:
  "wallet_update wid v f s = Inr (w', s') \<Longrightarrow>
     s' = s\<lparr>wallets := map (\<lambda>w. if wallet_id w = wid \<and> version w = v
                                 then wallet_stored (f w) else w) (wallets s),
            wallet_writes := wallet_writes s @ [wid]\<rparr>"
  by (auto simp: wallet_update_def split: option.splits if_splits)








section \<open>The status of a ledger row\<close>









section \<open>The handlers do not read the ledger\<close>

lemma other_commit_ledger:
  "other_commit ev (s\<lparr>transactions := ts\<rparr>) = (other_commit ev s)\<lparr>transactions := ts\<rparr>"
  by (simp add: other_commit_def split: event.splits)

lemma wallet_update_ledger:
  "wallet_update wid v f (s\<lparr>transactions := ts\<rparr>) =
     (case wallet_update wid v f s of
        Inl e \<Rightarrow> Inl e
      | Inr (w, s') \<Rightarrow> Inr (w, s'\<lparr>transactions := ts\<rparr>))"
  by (simp add: wallet_update_def split: option.splits)

lemma unit_of_blind:
  assumes "env = (\<lambda>x. x) \<or> env = other_commit ev"
  shows "unit_of j env (s\<lparr>transactions := ts\<rparr>) =
           (case unit_of j env s of
              Inl e \<Rightarrow> Inl e
            | Inr (u, s') \<Rightarrow>
                Inr (u, s'\<lparr>transactions :=
                            map (\<lambda>t. if job_key j t then t\<lparr>status := COMPLETED\<rparr> else t) ts\<rparr>))"
proof -
  have env: "env (s\<lparr>transactions := ts\<rparr>) = (env s)\<lparr>transactions := ts\<rparr>"
    using assms other_commit_ledger by auto
  show ?thesis
  proof (cases j)
    case (deposit_job wid amt d tid)
    then show ?thesis
      by (auto simp: unit_of_def job_key_def deposit_unit_def env wallet_update_ledger
            transaction_updateMany_def cacheWalletBalance_def
          split: option.splits sum.splits)
  next
    case (withdrawal_job wid amt d tid)
    then show ?thesis
      by (auto simp: unit_of_def job_key_def withdrawal_unit_def env wallet_update_ledger
            transaction_updateMany_def cacheWalletBalance_def
          split: option.splits sum.splits)
  next
    case (transfer_job src dst amt d rid)
    then show ?thesis
      by (auto simp: unit_of_def job_key_def transfer_unit_def env wallet_update_ledger
            transaction_updateMany_def cacheWalletBalance_def Let_def
          split: option.splits sum.splits)
  qed
qed

lemma attempt_blind:
  "fst (prisma_transaction (unit_of j) ev (s\<lparr>transactions := ts\<rparr>))
     = fst (prisma_transaction (unit_of j) ev s)
   \<and> (snd (prisma_transaction (unit_of j) ev (s\<lparr>transactions := ts\<rparr>)))\<lparr>transactions := []\<rparr>
     = (snd (prisma_transaction (unit_of j) ev s))\<lparr>transactions := []\<rparr>"
proof -
  note a = unit_of_blind [where env = "\<lambda>x. x" and j = j and s = s and ts = ts, simplified]
  have b: "unit_of j (other_commit ev') (s\<lparr>transactions := ts\<rparr>) =
           (case unit_of j (other_commit ev') s of
              Inl e \<Rightarrow> Inl e
            | Inr (u, s') \<Rightarrow>
                Inr (u, s'\<lparr>transactions :=
                            map (\<lambda>t. if job_key j t then t\<lparr>status := COMPLETED\<rparr> else t) ts\<rparr>))"
    for ev'
    by (rule unit_of_blind [where ev = ev']) simp
  show ?thesis
    by (cases ev)
       (auto simp: prisma_transaction_def a b other_commit_ledger split: sum.splits)
qed

lemma forget_eq:
  "(a :: state)\<lparr>transactions := []\<rparr> = b\<lparr>transactions := []\<rparr> \<Longrightarrow> a = b\<lparr>transactions := transactions a\<rparr>"
  by (cases a, cases b) simp

lemma loop_blind:
  assumes "\<And>ev s ts.
      fst (prisma_transaction fn ev (s\<lparr>transactions := ts\<rparr>)) = fst (prisma_transaction fn ev s)
      \<and> (snd (prisma_transaction fn ev (s\<lparr>transactions := ts\<rparr>)))\<lparr>transactions := []\<rparr>
        = (snd (prisma_transaction fn ev s))\<lparr>transactions := []\<rparr>"
  shows "fst (executeTransaction_loop fn m i le evs slept (s\<lparr>transactions := ts\<rparr>))
           = fst (executeTransaction_loop fn m i le evs slept s)
       \<and> (fst (snd (executeTransaction_loop fn m i le evs slept (s\<lparr>transactions := ts\<rparr>))))
            \<lparr>transactions := []\<rparr>
           = (fst (snd (executeTransaction_loop fn m i le evs slept s)))\<lparr>transactions := []\<rparr>
       \<and> snd (snd (executeTransaction_loop fn m i le evs slept (s\<lparr>transactions := ts\<rparr>)))
           = snd (snd (executeTransaction_loop fn m i le evs slept s))"
  using assms
proof (induction fn m i le evs slept s arbitrary: ts rule: executeTransaction_loop.induct)
  case (1 fn m i le evs slept s)
  let ?ev = "case evs of [] \<Rightarrow> Quiet | ev # _ \<Rightarrow> ev"
  obtain r s' where tx: "prisma_transaction fn ?ev s = (r, s')"
    by (cases "prisma_transaction fn ?ev s")
  obtain r2 s2 where tx2: "prisma_transaction fn ?ev (s\<lparr>transactions := ts\<rparr>) = (r2, s2)"
    by (cases "prisma_transaction fn ?ev (s\<lparr>transactions := ts\<rparr>)")
  from "1.prems" [of ?ev ts s] tx tx2
  have same: "r2 = r" "s2\<lparr>transactions := []\<rparr> = s'\<lparr>transactions := []\<rparr>" by simp_all
  have s2: "s2 = s'\<lparr>transactions := transactions s2\<rparr>" using forget_eq [OF same(2)] .
  show ?case
  proof (cases "i < m \<and> (\<exists>e. r = Inl e \<and> retryable e)")
    case False
    then show ?thesis
      using tx tx2 same
      by (cases r) (auto simp: executeTransaction_loop.simps [of fn m i])
  next
    case True
    then obtain e where lt: "i < m" and e: "r = Inl e" "retryable e" by blast
    have u1: "executeTransaction_loop fn m i le evs slept s =
        executeTransaction_loop fn m (i + 1) (Some e) (tl evs) (slept @ [2 ^ i * 100]) s'"
      using lt tx e by (simp add: executeTransaction_loop.simps [of fn m i])
    have u2: "executeTransaction_loop fn m i le evs slept (s\<lparr>transactions := ts\<rparr>) =
        executeTransaction_loop fn m (i + 1) (Some e) (tl evs) (slept @ [2 ^ i * 100])
          (s'\<lparr>transactions := transactions s2\<rparr>)"
      using lt tx2 e same(1) s2 by (simp add: executeTransaction_loop.simps [of fn m i])
    show ?thesis
      unfolding u1 u2
      by (rule "1.IH" [OF lt tx [symmetric] e "1.prems"])
  qed
qed

lemma handle_blind:
  "fst (handle j evs (s\<lparr>transactions := ts\<rparr>)) = fst (handle j evs s)
   \<and> wallets (fst (snd (handle j evs (s\<lparr>transactions := ts\<rparr>))))
       = wallets (fst (snd (handle j evs s)))
   \<and> redis (fst (snd (handle j evs (s\<lparr>transactions := ts\<rparr>))))
       = redis (fst (snd (handle j evs s)))
   \<and> snd (snd (handle j evs (s\<lparr>transactions := ts\<rparr>))) = snd (snd (handle j evs s))"
proof -
  let ?a = "executeTransaction_loop (unit_of j) 3 0 None evs [] (s\<lparr>transactions := ts\<rparr>)"
  let ?b = "executeTransaction_loop (unit_of j) 3 0 None evs [] s"
  have rel: "fst ?a = fst ?b"
      "(fst (snd ?a))\<lparr>transactions := []\<rparr> = (fst (snd ?b))\<lparr>transactions := []\<rparr>"
      "snd (snd ?a) = snd (snd ?b)"
    using loop_blind [where fn = "unit_of j" and m = 3 and i = 0 and le = None and evs = evs
        and slept = "[]" and s = s and ts = ts, OF attempt_blind] by blast+
  obtain r sa sl where a: "?a = (r, sa, sl)" by (cases ?a)
  obtain r' sb sl' where b: "?b = (r', sb, sl')" by (cases ?b)
  from rel a b have eq: "r' = r" "sl' = sl" "sa\<lparr>transactions := []\<rparr> = sb\<lparr>transactions := []\<rparr>"
    by simp_all
  from forget_eq [OF eq(3)] have "wallets sa = wallets sb" "redis sa = redis sb"
    by (metis state.select_convs(1) state.surjective state.update_convs(2),
        metis state.select_convs(3) state.surjective state.update_convs(2))
  then show ?thesis
    using a b eq
    by (cases r) (simp_all add: handle_unfold executeTransaction_def transaction_updateMany_def)
qed

lemma find_versioned:
  "distinct (map wallet_id ws) \<Longrightarrow> w \<in> set ws \<Longrightarrow>
     find (\<lambda>x. wallet_id x = wallet_id w \<and> version x = version w) ws = Some w"
  by (induction ws) (auto simp: image_iff)

lemma first_attempt_succeeds:
  "prisma_transaction fn (case evs of [] \<Rightarrow> Quiet | ev # _ \<Rightarrow> ev) s = (Inr r, s') \<Longrightarrow>
     executeTransaction fn 3 evs s = (Inr r, s', [])"
  by (simp add: executeTransaction_def executeTransaction_loop.simps [of fn 3 0])

lemma wallet_stored_fields:
  "wallet_id (wallet_stored x) = wallet_id x"
  "userId (wallet_stored x) = userId x"
  "isActive (wallet_stored x) = isActive x"
  "version (wallet_stored x) = version x"
  "balance (wallet_stored x) = round8 (balance x)"
  by (simp_all add: wallet_stored_def)

lemma stored_if:
  "(if c then wallet_stored (x\<lparr>balance := b, version := v\<rparr>) else y)
     = (if c then x\<lparr>balance := round8 b, version := v\<rparr> else y)"
  by (simp add: wallet_stored_def)

lemma deposit_once:
  assumes "distinct (map wallet_id (wallets s))" and "w \<in> set (wallets s)"
      and "in_decimal_20_8 (balance w + amt)" and "in_int4 (version w + 1)"
  shows "processDeposit (wallet_id w) amt tid [] s =
           (Inr (),
            cacheWalletBalance (wallet_id w) (round8 (balance w + amt))
              (transaction_updateMany (\<lambda>t. transactionId t = tid) COMPLETED
                 (s\<lparr>wallets := map (\<lambda>w'. if wallet_id w' = wallet_id w \<and> version w' = version w
                                         then w'\<lparr>balance := round8 (balance w' + amt),
                                                 version := version w' + 1\<rparr>
                                         else w') (wallets s),
                    wallet_writes := wallet_writes s @ [wallet_id w]\<rparr>)),
            [])"
proof -
  have read: "wallet_findUnique (wallet_id w) (wallets s) = Some w"
    unfolding wallet_findUnique_def using assms(1,2) by (rule find_distinct_key)
  have unit: "deposit_unit (wallet_id w) amt tid (other_commit Quiet) s =
      Inr ((), cacheWalletBalance (wallet_id w) (round8 (balance w + amt))
              (transaction_updateMany (\<lambda>t. transactionId t = tid) COMPLETED
                 (s\<lparr>wallets := map (\<lambda>w'. if wallet_id w' = wallet_id w \<and> version w' = version w
                                         then w'\<lparr>balance := round8 (balance w' + amt),
                                                 version := version w' + 1\<rparr>
                                         else w') (wallets s),
                    wallet_writes := wallet_writes s @ [wallet_id w]\<rparr>)))"
    using read find_versioned [OF assms(1,2)] assms(3,4)
    by (simp add: deposit_unit_def other_commit_def wallet_update_def wallet_fits_def
          stored_if wallet_stored_fields)
  have "prisma_transaction (deposit_unit (wallet_id w) amt tid)
          (case [] of [] \<Rightarrow> Quiet | ev # _ \<Rightarrow> ev) s =
      (Inr (), cacheWalletBalance (wallet_id w) (round8 (balance w + amt))
              (transaction_updateMany (\<lambda>t. transactionId t = tid) COMPLETED
                 (s\<lparr>wallets := map (\<lambda>w'. if wallet_id w' = wallet_id w \<and> version w' = version w
                                         then w'\<lparr>balance := round8 (balance w' + amt),
                                                 version := version w' + 1\<rparr>
                                         else w') (wallets s),
                    wallet_writes := wallet_writes s @ [wallet_id w]\<rparr>)))"
    by (simp add: prisma_transaction_def unit)
  from first_attempt_succeeds [OF this] show ?thesis
    by (simp add: processDeposit_def)
qed

lemma deposit_out_of_range:
  assumes "distinct (map wallet_id (wallets s))" and "w \<in> set (wallets s)"
      and "\<not> in_decimal_20_8 (balance w + amt)"
  shows "processDeposit (wallet_id w) amt tid [] s =
           (Inl (PrismaError ''P2020''),
            transaction_updateMany (\<lambda>t. transactionId t = tid) FAILED s, [])"
proof -
  have read: "wallet_findUnique (wallet_id w) (wallets s) = Some w"
    unfolding wallet_findUnique_def using assms(1,2) by (rule find_distinct_key)
  have unit: "deposit_unit (wallet_id w) amt tid (other_commit Quiet) s
      = Inl (PrismaError ''P2020'')"
    using read find_versioned [OF assms(1,2)] assms(3)
    by (simp add: deposit_unit_def other_commit_def wallet_update_def wallet_fits_def)
  have quiet: "other_commit Quiet s = s"
    by (simp add: other_commit_def)
  have "prisma_transaction (deposit_unit (wallet_id w) amt tid) Quiet s
      = (Inl (PrismaError ''P2020''), s)"
    by (simp add: prisma_transaction_def unit quiet)
  then have "executeTransaction (deposit_unit (wallet_id w) amt tid) 3 [] s
      = (Inl (PrismaError ''P2020''), s, [])"
    by (simp add: executeTransaction_def retryable_def
          executeTransaction_loop.simps [of "deposit_unit (wallet_id w) amt tid" 3 0])
  then show ?thesis
    by (simp add: processDeposit_def)
qed

lemma wallet_ids_kept:
  "map wallet_id (map (\<lambda>w. if P w then w\<lparr>balance := b w, version := v w\<rparr> else w) ws)
     = map wallet_id ws"
  by (induction ws) auto

lemma marked_all:
  "list_all (\<lambda>t. K t \<longrightarrow> status t = st) (map (\<lambda>t. if K t then t\<lparr>status := st\<rparr> else t) ts)"
  by (induction ts) auto

lemma deposit_once_wallet:
  assumes "distinct (map wallet_id (wallets s))" and "w \<in> set (wallets s)"
      and "in_decimal_20_8 (balance w + amt)" and "in_int4 (version w + 1)"
  shows "fst (processDeposit (wallet_id w) amt tid [] s) = Inr ()"
    and "distinct (map wallet_id (wallets (fst (snd (processDeposit (wallet_id w) amt tid [] s)))))"
    and "w\<lparr>balance := round8 (balance w + amt), version := version w + 1\<rparr>
           \<in> set (wallets (fst (snd (processDeposit (wallet_id w) amt tid [] s))))"
    and "list_all (\<lambda>t. transactionId t = tid \<longrightarrow> status t = COMPLETED)
           (transactions (fst (snd (processDeposit (wallet_id w) amt tid [] s))))"
proof -
  note run = deposit_once [OF assms, where tid = tid]
  show "fst (processDeposit (wallet_id w) amt tid [] s) = Inr ()" by (simp add: run)
  have ids: "map wallet_id (wallets (fst (snd (processDeposit (wallet_id w) amt tid [] s))))
      = map wallet_id (wallets s)"
    by (simp add: run cacheWalletBalance_def transaction_updateMany_def wallet_ids_kept)
  with assms(1)
  show "distinct (map wallet_id (wallets (fst (snd (processDeposit (wallet_id w) amt tid [] s)))))"
    by simp
  show "w\<lparr>balance := round8 (balance w + amt), version := version w + 1\<rparr>
           \<in> set (wallets (fst (snd (processDeposit (wallet_id w) amt tid [] s))))"
    using assms(2)
    by (simp add: run cacheWalletBalance_def transaction_updateMany_def)
  show "list_all (\<lambda>t. transactionId t = tid \<longrightarrow> status t = COMPLETED)
           (transactions (fst (snd (processDeposit (wallet_id w) amt tid [] s))))"
    by (simp add: run cacheWalletBalance_def transaction_updateMany_def marked_all)
qed

text \<open>
  Claim C1, as the code has it. No handler reads the ledger: its result, the wallet rows
  and cache entries it leaves and the delays it sleeps are the same whatever rows, in
  whatever status, the ledger holds. So the handler of a deposit job, invoked on an
  existing wallet with a quiet store, credits the amount whenever the new balance and
  version fit their columns: the balance kept is the sum rounded to 8 decimal places, the
  version is one more, and the row is left COMPLETED. Invoked again for the same job it
  credits the amount a second time, under the same condition on the new values. When the
  new balance does not fit the column the handler fails with P2020, credits nothing and
  leaves the row FAILED.
\<close>

theorem settlement_ignores_status:
  "fst (handle j evs (s\<lparr>transactions := ts\<rparr>)) = fst (handle j evs s)
   \<and> wallets (fst (snd (handle j evs (s\<lparr>transactions := ts\<rparr>))))
       = wallets (fst (snd (handle j evs s)))
   \<and> redis (fst (snd (handle j evs (s\<lparr>transactions := ts\<rparr>))))
       = redis (fst (snd (handle j evs s)))
   \<and> snd (snd (handle j evs (s\<lparr>transactions := ts\<rparr>))) = snd (snd (handle j evs s))
   \<and> (distinct (map wallet_id (wallets s)) \<and> w \<in> set (wallets s)
        \<and> in_decimal_20_8 (balance w + amt) \<and> in_int4 (version w + 1) \<longrightarrow>
        fst (processDeposit (wallet_id w) amt tid [] s) = Inr ()
      \<and> list_all (\<lambda>t. transactionId t = tid \<longrightarrow> status t = COMPLETED)
          (transactions (fst (snd (processDeposit (wallet_id w) amt tid [] s))))
      \<and> wallet_findUnique (wallet_id w)
          (wallets (fst (snd (processDeposit (wallet_id w) amt tid [] s))))
          = Some (w\<lparr>balance := round8 (balance w + amt), version := version w + 1\<rparr>)
      \<and> (in_decimal_20_8 (round8 (balance w + amt) + amt) \<and> in_int4 (version w + 2) \<longrightarrow>
          fst (processDeposit (wallet_id w) amt tid []
                (fst (snd (processDeposit (wallet_id w) amt tid [] s)))) = Inr ()
        \<and> wallet_findUnique (wallet_id w)
            (wallets (fst (snd (processDeposit (wallet_id w) amt tid []
                  (fst (snd (processDeposit (wallet_id w) amt tid [] s)))))))
            = Some (w\<lparr>balance := round8 (round8 (balance w + amt) + amt),
                      version := version w + 2\<rparr>)))
   \<and> (distinct (map wallet_id (wallets s)) \<and> w \<in> set (wallets s)
        \<and> \<not> in_decimal_20_8 (balance w + amt) \<longrightarrow>
        processDeposit (wallet_id w) amt tid [] s =
          (Inl (PrismaError ''P2020''),
           transaction_updateMany (\<lambda>t. transactionId t = tid) FAILED s, []))"
proof -
  let ?w1 = "w\<lparr>balance := round8 (balance w + amt), version := version w + 1\<rparr>"
  let ?s1 = "fst (snd (processDeposit (wallet_id w) amt tid [] s))"
  have once: "fst (processDeposit (wallet_id w) amt tid [] s) = Inr ()
      \<and> list_all (\<lambda>t. transactionId t = tid \<longrightarrow> status t = COMPLETED) (transactions ?s1)
      \<and> wallet_findUnique (wallet_id w) (wallets ?s1) = Some ?w1"
    if d: "distinct (map wallet_id (wallets s))" and w: "w \<in> set (wallets s)"
      and fb: "in_decimal_20_8 (balance w + amt)" and fv: "in_int4 (version w + 1)"
  proof -
    note first = deposit_once_wallet [OF d w fb fv, where tid = tid]
    have f1: "wallet_findUnique (wallet_id w) (wallets ?s1) = Some ?w1"
      unfolding wallet_findUnique_def
      using find_distinct_key [OF first(2,3)] by simp
    from first(1,4) f1 show ?thesis by (intro conjI)
  qed
  have twice: "fst (processDeposit (wallet_id w) amt tid [] ?s1) = Inr ()
      \<and> wallet_findUnique (wallet_id w)
          (wallets (fst (snd (processDeposit (wallet_id w) amt tid [] ?s1))))
          = Some (w\<lparr>balance := round8 (round8 (balance w + amt) + amt),
                    version := version w + 2\<rparr>)"
    if d: "distinct (map wallet_id (wallets s))" and w: "w \<in> set (wallets s)"
      and fb: "in_decimal_20_8 (balance w + amt)" and fv: "in_int4 (version w + 1)"
      and fb2: "in_decimal_20_8 (round8 (balance w + amt) + amt)"
      and fv2: "in_int4 (version w + 2)"
  proof -
    let ?w2 = "?w1\<lparr>balance := round8 (balance ?w1 + amt), version := version ?w1 + 1\<rparr>"
    let ?s2 = "fst (snd (processDeposit (wallet_id ?w1) amt tid [] ?s1))"
    note first = deposit_once_wallet [OF d w fb fv, where tid = tid]
    have fb2': "in_decimal_20_8 (balance ?w1 + amt)" using fb2 by simp
    have "version ?w1 + 1 = version w + 2" by simp
    with fv2 have fv2': "in_int4 (version ?w1 + 1)" by (simp only:)
    note second = deposit_once_wallet [OF first(2,3) fb2' fv2', where tid = tid]
    have f2: "wallet_findUnique (wallet_id w) (wallets ?s2) = Some ?w2"
      unfolding wallet_findUnique_def
      using find_distinct_key [OF second(2,3)] by simp
    have w2: "?w2 = w\<lparr>balance := round8 (round8 (balance w + amt) + amt),
                        version := version w + 2\<rparr>"
      by simp
    have id1: "wallet_id ?w1 = wallet_id w" by simp
    note s1 = second(1) [unfolded id1]
    note f2' = f2 [unfolded id1 w2]
    from s1 f2' show ?thesis by (intro conjI)
  qed
  have refused: "processDeposit (wallet_id w) amt tid [] s =
          (Inl (PrismaError ''P2020''),
           transaction_updateMany (\<lambda>t. transactionId t = tid) FAILED s, [])"
    if "distinct (map wallet_id (wallets s))" and "w \<in> set (wallets s)"
      and "\<not> in_decimal_20_8 (balance w + amt)"
    using that by (rule deposit_out_of_range)
  note blind = handle_blind [where j = j and evs = evs and s = s and ts = ts]
  show ?thesis
    using blind once twice refused by (intro conjI impI) (simp_all only: simp_thms)
qed

theorem settlement_ignores_status_witness:
  "fst (handle (deposit_job ''wallet-a'' 50 None ''tx-1'') []
          (store_example\<lparr>transactions := []\<rparr>))
     = fst (handle (deposit_job ''wallet-a'' 50 None ''tx-1'') [] store_example)
   \<and> wallets (fst (snd (handle (deposit_job ''wallet-a'' 50 None ''tx-1'') []
          (store_example\<lparr>transactions := []\<rparr>))))
     = wallets (fst (snd (handle (deposit_job ''wallet-a'' 50 None ''tx-1'') [] store_example)))
   \<and> fst (processDeposit ''wallet-a'' 50 ''tx-1'' [] store_example) = Inr ()
   \<and> wallet_findUnique ''wallet-a''
       (wallets (fst (snd (processDeposit ''wallet-a'' 50 ''tx-1'' [] store_example))))
     = Some \<lparr>wallet_id = ''wallet-a'', userId = ''user-1'', balance = 150, isActive = True,
             version = 2\<rparr>
   \<and> wallet_findUnique ''wallet-a''
       (wallets (fst (snd (processDeposit ''wallet-a'' 50 ''tx-1'' []
          (fst (snd (processDeposit ''wallet-a'' 50 ''tx-1'' [] store_example)))))))
     = Some \<lparr>wallet_id = ''wallet-a'', userId = ''user-1'', balance = 200, isActive = True,
             version = 3\<rparr>"
proof -
  let ?w = "\<lparr>wallet_id = ''wallet-a'', userId = ''user-1'', balance = 100, isActive = True,
             version = 1\<rparr>"
  have d: "distinct (map wallet_id (wallets store_example))"
    by (simp add: store_example_def)
  have w: "?w \<in> set (wallets store_example)"
    by (simp add: store_example_def)
  have f1: "in_decimal_20_8 (balance ?w + 50) \<and> in_int4 (version ?w + 1)"
    by (simp add: in_decimal_20_8_def in_int4_def round8_numeral)
  have f2: "in_decimal_20_8 (round8 (balance ?w + 50) + 50) \<and> in_int4 (version ?w + 2)"
    by (simp add: in_decimal_20_8_def in_int4_def round8_numeral)
  note t = settlement_ignores_status [where s = store_example and amt = 50 and tid = "''tx-1''"
      and w = ?w and j = "deposit_job ''wallet-a'' 50 None ''tx-1''" and evs = "[]"
      and ts = "[]"]
  from t d w f1 f2 show ?thesis
    by (simp add: round8_numeral)
qed

theorem completed_deposit_applied_again:
  "transaction_findUnique ''tx-1'' (transactions store_example)
     = Some \<lparr>transactionId = ''tx-1'', referenceId = None, walletId = ''wallet-a'',
             destinationWalletId = None, amount = 50, txType = DEPOSIT, status = COMPLETED,
             description = None\<rparr>
   \<and> wallet_findUnique ''wallet-a'' (wallets store_example)
     = Some \<lparr>wallet_id = ''wallet-a'', userId = ''user-1'', balance = 100, isActive = True,
             version = 1\<rparr>
   \<and> fst (handle (deposit_job ''wallet-a'' 50 None ''tx-1'') [] store_example) = Inr ()
   \<and> wallet_findUnique ''wallet-a''
       (wallets (fst (snd (handle (deposit_job ''wallet-a'' 50 None ''tx-1'') [] store_example))))
     = Some \<lparr>wallet_id = ''wallet-a'', userId = ''user-1'', balance = 150, isActive = True,
             version = 2\<rparr>"
  by code_simp

section \<open>The retry policy\<close>


lemma loop_final_attempt:
  assumes "i < m"
      and "prisma_transaction fn (case evs of [] \<Rightarrow> Quiet | ev # _ \<Rightarrow> ev) s = (r, s')"
      and "\<forall>e. r = Inl e \<longrightarrow> \<not> retryable e"
  shows "executeTransaction_loop fn m i le evs slept s = (r, s', slept)"
  using assms by (cases r) (simp_all add: executeTransaction_loop.simps [of fn m i])


























section \<open>Insufficient funds\<close>

lemma withdrawal_unit_insufficient:
  "wallet_findUnique wid (wallets s) = Some w \<Longrightarrow> balance w < amt \<Longrightarrow>
     withdrawal_unit wid amt tid env s = Inl (BadRequestException ''Insufficient funds'')"
  by (simp add: withdrawal_unit_def)

lemma withdrawal_attempt_insufficient:
  assumes "wallet_findUnique wid (wallets s) = Some w" and "balance w < amt"
      and "case ev of OtherCommit _ _ \<Rightarrow> False | _ \<Rightarrow> True"
  shows "\<exists>e. prisma_transaction (withdrawal_unit wid amt tid) ev s = (Inl e, s)"
  using assms(3) withdrawal_unit_insufficient [OF assms(1,2)]
  by (cases ev) (simp_all add: prisma_transaction_def other_commit_def)

lemma withdrawal_insufficient:
  assumes "wallet_findUnique wid (wallets s) = Some w" and "balance w < amt"
      and "list_all (\<lambda>ev. case ev of OtherCommit _ _ \<Rightarrow> False | _ \<Rightarrow> True) evs"
  shows "\<exists>e. fst (processWithdrawal wid amt tid evs s) = Inl e"
    and "fst (snd (processWithdrawal wid amt tid evs s)) =
           transaction_updateMany (\<lambda>t. transactionId t = tid) FAILED s"
proof -
  let ?run = "executeTransaction_loop (withdrawal_unit wid amt tid) 3 0 None evs [] s"
  have step: "b = s \<and> (\<exists>e. r = Inl e)"
    if "ev \<in> insert Quiet (set evs)" "a = s"
       "prisma_transaction (withdrawal_unit wid amt tid) ev a = (r, b)" for ev a r b
  proof -
    from that(1) assms(3) have "case ev of OtherCommit _ _ \<Rightarrow> False | _ \<Rightarrow> True"
      by (auto simp: list_all_iff)
    from withdrawal_attempt_insufficient [OF assms(1,2) this, of tid] that(2,3)
    show ?thesis by auto
  qed
  have post: "fst (snd ?run) = s \<and> (\<exists>e. fst ?run = Inl e)"
    by (rule loop_post [where P = "\<lambda>x. x = s" and Q = "\<lambda>r _. \<exists>e. r = Inl e"])
       (use step in simp_all)
  obtain r s' sl where run: "?run = (r, s', sl)" by (cases ?run)
  with post obtain e where e: "r = Inl e" "s' = s" by auto
  show "\<exists>e. fst (processWithdrawal wid amt tid evs s) = Inl e"
    using run e by (simp add: processWithdrawal_def executeTransaction_def)
  show "fst (snd (processWithdrawal wid amt tid evs s)) =
           transaction_updateMany (\<lambda>t. transactionId t = tid) FAILED s"
    using run e by (simp add: processWithdrawal_def executeTransaction_def)
qed

lemma withdrawal_insufficient_quiet:
  assumes "wallet_findUnique wid (wallets s) = Some w" and "balance w < amt"
  shows "processWithdrawal wid amt tid (Quiet # rest) s =
           (Inl (BadRequestException ''Insufficient funds''),
            transaction_updateMany (\<lambda>t. transactionId t = tid) FAILED s, [])"
proof -
  have "prisma_transaction (withdrawal_unit wid amt tid)
      (case Quiet # rest of [] \<Rightarrow> Quiet | ev # _ \<Rightarrow> ev) s =
      (Inl (BadRequestException ''Insufficient funds''), s)"
    using withdrawal_unit_insufficient [OF assms]
    by (simp add: prisma_transaction_def other_commit_def)
  from loop_final_attempt [of 0 3, OF _ this]
  have "executeTransaction (withdrawal_unit wid amt tid) 3 (Quiet # rest) s =
      (Inl (BadRequestException ''Insufficient funds''), s, [])"
    by (simp add: executeTransaction_def retryable_def)
  then show ?thesis by (simp add: processWithdrawal_def)
qed

lemma withdrawFunds_insufficient:
  assumes "(case wd_transactionId dto of Some t \<Rightarrow> t | None \<Rightarrow> uuid)
             \<notin> set (map transactionId (transactions s))"
      and "fst (getWalletBalance (wd_walletId dto) s) = Inr bal" and "bal < wd_amount dto"
  shows "fst (withdrawFunds dto uuid rejects s) = Inl (BadRequestException ''Insufficient funds'')"
    and "wallets (snd (withdrawFunds dto uuid rejects s)) = wallets s"
    and "transactions (snd (withdrawFunds dto uuid rejects s)) = transactions s"
    and "transactionQueue (snd (withdrawFunds dto uuid rejects s)) = transactionQueue s"
proof -
  have new: "transaction_findUnique (case wd_transactionId dto of Some t \<Rightarrow> t | None \<Rightarrow> uuid)
      (transactions s) = None"
    using assms(1) unfolding transaction_findUnique_def find_None_iff
    by (metis image_eqI list.set_map)
  obtain s0 where bal: "getWalletBalance (wd_walletId dto) s = (Inr bal, s0)"
    using assms(2) by (cases "getWalletBalance (wd_walletId dto) s") auto
  note st = getWalletBalance_store [OF bal]
  have run: "withdrawFunds dto uuid rejects s = (Inl (BadRequestException ''Insufficient funds''), s0)"
    using new bal assms(3) by (simp add: withdrawFunds_def)
  show "fst (withdrawFunds dto uuid rejects s) = Inl (BadRequestException ''Insufficient funds'')"
    and "wallets (snd (withdrawFunds dto uuid rejects s)) = wallets s"
    and "transactions (snd (withdrawFunds dto uuid rejects s)) = transactions s"
    and "transactionQueue (snd (withdrawFunds dto uuid rejects s)) = transactionQueue s"
    using st by (simp_all add: run)
qed

text \<open>
  Claim C5, as the code has it. A withdrawal request whose amount exceeds the balance
  read (the cached balance when there is one, the store's otherwise) is refused with
  "Insufficient funds": wallets, ledger and queue stay as they were, so no row at all is
  written. When the shortfall shows at settlement instead (the store balance read by
  processWithdrawal is below the amount, no other writer in between), the handler fails,
  the wallets stay as they were and the rows of the job's transactionId are FAILED; with
  a quiet first attempt the error is "Insufficient funds" and nothing is retried.
\<close>

theorem insufficient_funds:
  "((case wd_transactionId dto of Some t \<Rightarrow> t | None \<Rightarrow> uuid)
       \<notin> set (map transactionId (transactions s))
     \<and> fst (getWalletBalance (wd_walletId dto) s) = Inr bal \<and> bal < wd_amount dto \<longrightarrow>
       fst (withdrawFunds dto uuid rejects s) = Inl (BadRequestException ''Insufficient funds'')
     \<and> wallets (snd (withdrawFunds dto uuid rejects s)) = wallets s
     \<and> transactions (snd (withdrawFunds dto uuid rejects s)) = transactions s
     \<and> transactionQueue (snd (withdrawFunds dto uuid rejects s)) = transactionQueue s)
   \<and> (wallet_findUnique wid (wallets s) = Some w \<and> balance w < amt
     \<and> list_all (\<lambda>ev. case ev of OtherCommit _ _ \<Rightarrow> False | _ \<Rightarrow> True) evs \<longrightarrow>
       (\<exists>e. fst (processWithdrawal wid amt tid evs s) = Inl e)
     \<and> wallets (fst (snd (processWithdrawal wid amt tid evs s))) = wallets s
     \<and> transactions (fst (snd (processWithdrawal wid amt tid evs s)))
         = map (\<lambda>t. if transactionId t = tid then t\<lparr>status := FAILED\<rparr> else t) (transactions s))
   \<and> (wallet_findUnique wid (wallets s) = Some w \<and> balance w < amt \<longrightarrow>
       processWithdrawal wid amt tid (Quiet # rest) s =
         (Inl (BadRequestException ''Insufficient funds''),
          transaction_updateMany (\<lambda>t. transactionId t = tid) FAILED s, []))"
proof (intro conjI impI)
  assume h: "(case wd_transactionId dto of Some t \<Rightarrow> t | None \<Rightarrow> uuid)
       \<notin> set (map transactionId (transactions s))
     \<and> fst (getWalletBalance (wd_walletId dto) s) = Inr bal \<and> bal < wd_amount dto"
  then have a: "(case wd_transactionId dto of Some t \<Rightarrow> t | None \<Rightarrow> uuid)
       \<notin> set (map transactionId (transactions s))"
    and b: "fst (getWalletBalance (wd_walletId dto) s) = Inr bal" and c: "bal < wd_amount dto"
    by blast+
  show "fst (withdrawFunds dto uuid rejects s) = Inl (BadRequestException ''Insufficient funds'')"
    by (rule withdrawFunds_insufficient [OF a b c])
  show "wallets (snd (withdrawFunds dto uuid rejects s)) = wallets s"
    by (rule withdrawFunds_insufficient [OF a b c])
  show "transactions (snd (withdrawFunds dto uuid rejects s)) = transactions s"
    by (rule withdrawFunds_insufficient [OF a b c])
  show "transactionQueue (snd (withdrawFunds dto uuid rejects s)) = transactionQueue s"
    by (rule withdrawFunds_insufficient [OF a b c])
next
  assume h: "wallet_findUnique wid (wallets s) = Some w \<and> balance w < amt
     \<and> list_all (\<lambda>ev. case ev of OtherCommit _ _ \<Rightarrow> False | _ \<Rightarrow> True) evs"
  then have a: "wallet_findUnique wid (wallets s) = Some w" and b: "balance w < amt"
    and c: "list_all (\<lambda>ev. case ev of OtherCommit _ _ \<Rightarrow> False | _ \<Rightarrow> True) evs"
    by blast+
  note r = withdrawal_insufficient [OF a b c, of tid]
  show "\<exists>e. fst (processWithdrawal wid amt tid evs s) = Inl e" by (rule r(1))
  show "wallets (fst (snd (processWithdrawal wid amt tid evs s))) = wallets s"
    by (simp add: r(2) transaction_updateMany_def)
  show "transactions (fst (snd (processWithdrawal wid amt tid evs s)))
         = map (\<lambda>t. if transactionId t = tid then t\<lparr>status := FAILED\<rparr> else t) (transactions s)"
    by (simp add: r(2) transaction_updateMany_def)
next
  assume "wallet_findUnique wid (wallets s) = Some w \<and> balance w < amt"
  then show "processWithdrawal wid amt tid (Quiet # rest) s =
         (Inl (BadRequestException ''Insufficient funds''),
          transaction_updateMany (\<lambda>t. transactionId t = tid) FAILED s, [])"
    using withdrawal_insufficient_quiet by blast
qed


theorem insufficient_funds_witness:
  "fst (withdrawFunds \<lparr>wd_walletId = ''wallet-a'', wd_amount = 150, wd_description = None,
                        wd_transactionId = Some ''tx-9''\<rparr> ''uuid-1'' None store_example)
     = Inl (BadRequestException ''Insufficient funds'')
   \<and> wallets (snd (withdrawFunds \<lparr>wd_walletId = ''wallet-a'', wd_amount = 150,
        wd_description = None, wd_transactionId = Some ''tx-9''\<rparr> ''uuid-1'' None store_example))
     = wallets store_example
   \<and> wallets (fst (snd (processWithdrawal ''wallet-a'' 150 ''tx-2''
        [StoreFault ''P2034'', Quiet] store_example))) = wallets store_example
   \<and> map status (transactions (fst (snd (processWithdrawal ''wallet-a'' 150 ''tx-2''
        [StoreFault ''P2034'', Quiet] store_example))))
     = [COMPLETED, FAILED, PENDING, PENDING]
   \<and> fst (processWithdrawal ''wallet-a'' 150 ''tx-2'' [Quiet] store_example)
     = Inl (BadRequestException ''Insufficient funds'')"
proof -
  let ?dto = "\<lparr>wd_walletId = ''wallet-a'', wd_amount = 150, wd_description = None,
               wd_transactionId = Some ''tx-9''\<rparr>"
  let ?w = "\<lparr>wallet_id = ''wallet-a'', userId = ''user-1'', balance = 100, isActive = True,
             version = 1\<rparr>"
  note t = insufficient_funds [where dto = ?dto and uuid = "''uuid-1''" and rejects = None
      and s = store_example
      and bal = 100 and wid = "''wallet-a''" and w = ?w and amt = 150 and tid = "''tx-2''"
      and evs = "[StoreFault ''P2034'', Quiet]" and rest = "[]"]
  have new: "(case wd_transactionId ?dto of Some t \<Rightarrow> t | None \<Rightarrow> ''uuid-1'')
      \<notin> set (map transactionId (transactions store_example))"
    by (simp add: store_example_def ledger_example_def)
  have bal: "fst (getWalletBalance (wd_walletId ?dto) store_example) = Inr 100"
    by (simp add: store_example_def getWalletBalance_def redis_get_def getWallet_def
          wallet_findFirst_active_def)
  have low: "(100 :: rat) < wd_amount ?dto" by simp
  have read: "wallet_findUnique ''wallet-a'' (wallets store_example) = Some ?w"
    by (simp add: store_example_def wallet_findUnique_def)
  have short: "balance ?w < 150" by simp
  have evs: "list_all (\<lambda>ev. case ev of OtherCommit _ _ \<Rightarrow> False | _ \<Rightarrow> True)
      [StoreFault ''P2034'', Quiet]"
    by simp
  from t new bal low have 1: "fst (withdrawFunds ?dto ''uuid-1'' None store_example)
      = Inl (BadRequestException ''Insufficient funds'')"
    and 2: "wallets (snd (withdrawFunds ?dto ''uuid-1'' None store_example))
      = wallets store_example"
    by blast+
  from t read short evs have 3: "wallets (fst (snd (processWithdrawal ''wallet-a'' 150 ''tx-2''
        [StoreFault ''P2034'', Quiet] store_example))) = wallets store_example"
    and 4: "transactions (fst (snd (processWithdrawal ''wallet-a'' 150 ''tx-2''
        [StoreFault ''P2034'', Quiet] store_example)))
      = map (\<lambda>t. if transactionId t = ''tx-2'' then t\<lparr>status := FAILED\<rparr> else t)
          (transactions store_example)"
    by blast+
  from t read short have 5: "processWithdrawal ''wallet-a'' 150 ''tx-2'' (Quiet # []) store_example =
      (Inl (BadRequestException ''Insufficient funds''),
       transaction_updateMany (\<lambda>t. transactionId t = ''tx-2'') FAILED store_example, [])"
    by blast
  have 4: "map status (transactions (fst (snd (processWithdrawal ''wallet-a'' 150 ''tx-2''
        [StoreFault ''P2034'', Quiet] store_example))))
     = [COMPLETED, FAILED, PENDING, PENDING]"
    unfolding 4 by (simp add: store_example_def ledger_example_def)
  have 5: "fst (processWithdrawal ''wallet-a'' 150 ''tx-2'' [Quiet] store_example)
     = Inl (BadRequestException ''Insufficient funds'')"
    using 5 by simp
  from 1 2 3 4 5 show ?thesis by (intro conjI)
qed

theorem refused_withdrawal_writes_no_row:
  "wallet_findUnique ''wallet-a'' (wallets store_example)
     = Some \<lparr>wallet_id = ''wallet-a'', userId = ''user-1'', balance = 100, isActive = True,
             version = 1\<rparr>
   \<and> withdrawFunds \<lparr>wd_walletId = ''wallet-a'', wd_amount = 150, wd_description = None,
                     wd_transactionId = Some ''tx-9''\<rparr> ''uuid-1'' None store_example
     = (Inl (BadRequestException ''Insufficient funds''),
        store_example\<lparr>redis := [(''wallet_balance_wallet-a'', 100)]\<rparr>)
   \<and> transaction_findUnique ''tx-9''
       (transactions (store_example\<lparr>redis := [(''wallet_balance_wallet-a'', 100)]\<rparr>)) = None
   \<and> filter (\<lambda>t. status t = FAILED \<and> txType t = WITHDRAWAL \<and> amount t = 150)
       (transactions (store_example\<lparr>redis := [(''wallet_balance_wallet-a'', 100)]\<rparr>)) = []"
  by (simp add: store_example_def ledger_example_def wallet_findUnique_def withdrawFunds_def
        transaction_findUnique_def getWalletBalance_def redis_get_def cache_key_def getWallet_def
        wallet_findFirst_active_def cacheWalletBalance_def redis_set_def redis_del_def)

section \<open>The order of the wallet updates of a transfer\<close>

lemma transfer_unit_writes:
  assumes "transfer_unit src dst amt rid env s = Inr (u, s')"
  shows "wallet_writes s' = wallet_writes (env s) @ [src, dst]"
  using assms
  by (auto simp: transfer_unit_def Let_def transaction_updateMany_def cacheWalletBalance_def
      dest!: wallet_update_Inr split: option.splits sum.splits if_splits)

text \<open>
  Claim C3 on the code. The sorted ids only go into the \<open>in\<close> filter of findMany; the
  updates are issued source first, destination second. For the transfer from wallet-b
  to wallet-a the rows are written in the order wallet-b, wallet-a, which is not the
  sorted order, and the transfer from wallet-a to wallet-b writes them in the opposite
  order.
\<close>

theorem transfer_writes_source_first:
  "sort [''wallet-b'', ''wallet-a''] = [''wallet-a'', ''wallet-b'']
   \<and> fst (handle (transfer_job ''wallet-b'' ''wallet-a'' 5 None ''ref-ba'') [] cross_example)
       = Inr ()
   \<and> wallet_writes (fst (snd (handle (transfer_job ''wallet-b'' ''wallet-a'' 5 None ''ref-ba'') []
        cross_example))) = [''wallet-b'', ''wallet-a'']
   \<and> wallet_writes (fst (snd (handle (transfer_job ''wallet-a'' ''wallet-b'' 10 None ''ref-ab'') []
        cross_example))) = [''wallet-a'', ''wallet-b'']"
  by code_simp

section \<open>Settlement on a deactivated wallet\<close>

text \<open>
  Claim C8 on the code. A deposit is requested on the active, empty wallet-b (a PENDING
  row and a job); the wallet is then deactivated, its balance being 0; the job is then
  delivered. processDeposit finds the row by id alone and credits it: the deactivated
  wallet ends with balance 50 and version 1.
\<close>

theorem deposit_settled_on_deactivated_wallet:
  "transactionQueue (perform (DepositFunds \<lparr>dep_walletId = ''wallet-b'', dep_amount = 50,
        dep_description = None, dep_transactionId = Some ''tx-9''\<rparr> ''uuid-1'' None) store_example)
     = [deposit_job ''wallet-b'' 50 None ''tx-9'']
   \<and> wallet_findUnique ''wallet-b''
       (wallets (perform (DeactivateWallet ''wallet-b'')
          (perform (DepositFunds \<lparr>dep_walletId = ''wallet-b'', dep_amount = 50,
             dep_description = None, dep_transactionId = Some ''tx-9''\<rparr> ''uuid-1'' None)
             store_example)))
     = Some \<lparr>wallet_id = ''wallet-b'', userId = ''user-2'', balance = 0, isActive = False,
             version = 0\<rparr>
   \<and> fst (handle (deposit_job ''wallet-b'' 50 None ''tx-9'') []
          (perform (DeactivateWallet ''wallet-b'')
             (perform (DepositFunds \<lparr>dep_walletId = ''wallet-b'', dep_amount = 50,
                dep_description = None, dep_transactionId = Some ''tx-9''\<rparr> ''uuid-1'' None)
                store_example)))
     = Inr ()
   \<and> wallet_findUnique ''wallet-b''
       (wallets (perform (Settle (deposit_job ''wallet-b'' 50 None ''tx-9'') [])
          (perform (DeactivateWallet ''wallet-b'')
             (perform (DepositFunds \<lparr>dep_walletId = ''wallet-b'', dep_amount = 50,
                dep_description = None, dep_transactionId = Some ''tx-9''\<rparr> ''uuid-1'' None)
                store_example))))
     = Some \<lparr>wallet_id = ''wallet-b'', userId = ''user-2'', balance = 50, isActive = False,
             version = 1\<rparr>"
  by code_simp

section \<open>Deactivation\<close>

lemma deactivated_wallets:
  "wallets s' = wallets s \<Longrightarrow> deactivated wid s' = deactivated wid s"
  by (simp add: deactivated_def)

lemma deactivated_map:
  assumes "wallets s' = map g (wallets s)"
      and "\<And>x. wallet_id (g x) = wallet_id x" and "\<And>x. isActive (g x) \<Longrightarrow> isActive x"
      and "deactivated wid s"
  shows "deactivated wid s'"
  using assms(4) unfolding deactivated_def assms(1)
  by (simp add: assms(2)) (use assms(3) in blast)

lemma deactivated_other_commit:
  assumes "deactivated wid s"
  shows "deactivated wid (other_commit ev s)"
proof (cases ev)
  case (OtherCommit w d)
  have "wallets (other_commit ev s) =
      map (\<lambda>x. if wallet_id x = w then x\<lparr>balance := round8 (balance x + d), version := version x + 1\<rparr>
                else x) (wallets s)"
    by (simp add: OtherCommit other_commit_def)
  from this _ _ assms show ?thesis
    by (rule deactivated_map) (simp_all split: if_splits)
qed (use assms in \<open>simp_all add: other_commit_def\<close>)

lemma deactivated_wallet_update:
  assumes "wallet_update w v (\<lambda>x. x\<lparr>balance := b x, version := c x\<rparr>) s = Inr (w', s')"
      and "deactivated wid s"
  shows "deactivated wid s'"
proof -
  have "wallets s' =
      map (\<lambda>x. if wallet_id x = w \<and> version x = v
                then wallet_stored (x\<lparr>balance := b x, version := c x\<rparr>)
                else x) (wallets s)"
    using wallet_update_Inr [OF assms(1)] by simp
  from this _ _ assms(2) show ?thesis
    by (rule deactivated_map) (simp_all add: wallet_stored_fields split: if_splits)
qed

lemma deposit_unit_Inr:
  assumes "deposit_unit wid amt tid env s = Inr (u, s')"
  shows "\<exists>(w :: Wallet) w1 s1.
    wallet_findUnique wid (wallets s) = Some w
    \<and> wallet_update wid (version w)
       (\<lambda>x. x\<lparr>balance := balance x + amt, version := version x + 1\<rparr>) (env s) = Inr (w1, s1)
    \<and> wallets s' = wallets s1"
  using assms
  by (auto simp: deposit_unit_def cacheWalletBalance_def transaction_updateMany_def
      split: option.splits sum.splits)

lemma withdrawal_unit_Inr:
  assumes "withdrawal_unit wid amt tid env s = Inr (u, s')"
  shows "\<exists>(w :: Wallet) w1 s1.
    wallet_findUnique wid (wallets s) = Some w \<and> \<not> balance w < amt
    \<and> wallet_update wid (version w)
       (\<lambda>x. x\<lparr>balance := balance x - amt, version := version x + 1\<rparr>) (env s) = Inr (w1, s1)
    \<and> wallets s' = wallets s1"
  using assms
  by (auto simp: withdrawal_unit_def cacheWalletBalance_def transaction_updateMany_def
      split: option.splits sum.splits if_splits)

lemma transfer_unit_Inr:
  assumes "transfer_unit src dst amt rid env s = Inr (u, s')"
  shows "\<exists>(ws :: Wallet) (wd :: Wallet) w1 s1 w2 s2.
    find (\<lambda>w. wallet_id w = src) (wallet_findMany_in (sort [src, dst]) (wallets s)) = Some ws
    \<and> find (\<lambda>w. wallet_id w = dst) (wallet_findMany_in (sort [src, dst]) (wallets s)) = Some wd
    \<and> \<not> balance ws < amt
    \<and> wallet_update src (version ws)
       (\<lambda>x. x\<lparr>balance := balance x - amt, version := version x + 1\<rparr>) (env s) = Inr (w1, s1)
    \<and> wallet_update dst (version wd)
       (\<lambda>x. x\<lparr>balance := balance x + amt, version := version x + 1\<rparr>) s1 = Inr (w2, s2)
    \<and> wallets s' = wallets s2"
proof -
  obtain ws wd :: Wallet where found:
      "find (\<lambda>w. wallet_id w = src) (wallet_findMany_in (sort [src, dst]) (wallets s)) = Some ws"
      "find (\<lambda>w. wallet_id w = dst) (wallet_findMany_in (sort [src, dst]) (wallets s)) = Some wd"
    using assms by (auto simp: transfer_unit_def Let_def split: option.splits)
  with assms have enough: "\<not> balance ws < amt"
    by (auto simp: transfer_unit_def Let_def split: if_splits)
  with assms found obtain w1 s1 where u1: "wallet_update src (version ws)
       (\<lambda>x. x\<lparr>balance := balance x - amt, version := version x + 1\<rparr>) (env s) = Inr (w1, s1)"
    by (auto simp: transfer_unit_def Let_def split: sum.splits)
  with assms found enough obtain w2 s2 where u2: "wallet_update dst (version wd)
       (\<lambda>x. x\<lparr>balance := balance x + amt, version := version x + 1\<rparr>) s1 = Inr (w2, s2)"
    by (auto simp: transfer_unit_def Let_def split: sum.splits)
  with assms found enough u1 have "wallets s' = wallets s2"
    by (auto simp: transfer_unit_def Let_def cacheWalletBalance_def transaction_updateMany_def)
  with found enough u1 u2 show ?thesis by blast
qed

lemma unit_of_deactivated:
  assumes "env = (\<lambda>x. x) \<or> env = other_commit ev"
      and "unit_of j env s = Inr (u, s')" and "deactivated wid s"
  shows "deactivated wid s'"
proof -
  have env: "deactivated wid (env s)"
    using assms(1,3) deactivated_other_commit by auto
  show ?thesis
  proof (cases j)
    case (deposit_job w amt d tid)
    with assms(2) have "deposit_unit w amt tid env s = Inr (u, s')" by (simp add: unit_of_def)
    from deposit_unit_Inr [OF this] obtain x :: Wallet and w1 s1 where
      u1: "wallet_update w (version x)
         (\<lambda>x. x\<lparr>balance := balance x + amt, version := version x + 1\<rparr>) (env s) = Inr (w1, s1)"
      and eq: "wallets s' = wallets s1"
      by blast
    from deactivated_wallet_update [OF u1 env] show ?thesis
      by (simp add: deactivated_wallets [OF eq])
  next
    case (withdrawal_job w amt d tid)
    with assms(2) have "withdrawal_unit w amt tid env s = Inr (u, s')" by (simp add: unit_of_def)
    from withdrawal_unit_Inr [OF this] obtain x :: Wallet and w1 s1 where
      u1: "wallet_update w (version x)
         (\<lambda>x. x\<lparr>balance := balance x - amt, version := version x + 1\<rparr>) (env s) = Inr (w1, s1)"
      and eq: "wallets s' = wallets s1"
      by blast
    from deactivated_wallet_update [OF u1 env] show ?thesis
      by (simp add: deactivated_wallets [OF eq])
  next
    case (transfer_job src dst amt d rid)
    with assms(2) have "transfer_unit src dst amt rid env s = Inr (u, s')"
      by (simp add: unit_of_def)
    from transfer_unit_Inr [OF this] obtain ws wd :: Wallet and w1 s1 w2 s2 where
      u1: "wallet_update src (version ws)
         (\<lambda>x. x\<lparr>balance := balance x - amt, version := version x + 1\<rparr>) (env s) = Inr (w1, s1)"
      and u2: "wallet_update dst (version wd)
         (\<lambda>x. x\<lparr>balance := balance x + amt, version := version x + 1\<rparr>) s1 = Inr (w2, s2)"
      and eq: "wallets s' = wallets s2"
      by blast
    from deactivated_wallet_update [OF u2 deactivated_wallet_update [OF u1 env]]
    show ?thesis by (simp add: deactivated_wallets [OF eq])
  qed
qed

lemma deactivated_fields:
  "deactivated wid (s\<lparr>transactions := ts\<rparr>) = deactivated wid s"
  "deactivated wid (s\<lparr>redis := kvs\<rparr>) = deactivated wid s"
  "deactivated wid (s\<lparr>transactionQueue := q\<rparr>) = deactivated wid s"
  "deactivated wid (s\<lparr>wallet_writes := l\<rparr>) = deactivated wid s"
  by (simp_all add: deactivated_def)

lemma attempt_deactivated:
  assumes "prisma_transaction (unit_of j) ev s = (r, s')" and "deactivated wid s"
  shows "deactivated wid s'"
proof (cases ev)
  case (StoreFault c)
  with assms show ?thesis by (simp add: prisma_transaction_def)
next
  case (CommitFault c)
  with assms show ?thesis
    by (auto simp: prisma_transaction_def deactivated_fields split: sum.splits)
next
  case Quiet
  with assms unit_of_deactivated [of "other_commit ev" ev j s _ _ wid]
    deactivated_other_commit [of wid s ev]
  show ?thesis
    by (auto simp: prisma_transaction_def split: sum.splits)
next
  case (OtherCommit w d)
  with assms unit_of_deactivated [of "other_commit ev" ev j s _ _ wid]
    deactivated_other_commit [of wid s ev]
  show ?thesis
    by (auto simp: prisma_transaction_def split: sum.splits)
qed

lemma settle_deactivated:
  assumes "deactivated wid s"
  shows "deactivated wid (fst (snd (handle j evs s)))"
proof -
  let ?run = "executeTransaction_loop (unit_of j) 3 0 None evs [] s"
  have "deactivated wid (fst (snd ?run)) \<and> True"
    by (rule loop_post [where P = "deactivated wid" and Q = "\<lambda>_ _. True"])
       (use assms attempt_deactivated in auto)
  then have inv: "deactivated wid (fst (snd ?run))" ..
  obtain r s' sl where run: "?run = (r, s', sl)" by (cases ?run)
  with inv show ?thesis
    by (cases r)
       (simp_all add: handle_unfold executeTransaction_def transaction_updateMany_def
          deactivated_fields)
qed

lemma depositFunds_wallets: "wallets (snd (depositFunds dto uuid rejects s)) = wallets s"
  by (auto simp: depositFunds_def transaction_create_def Let_def transactionQueue_add_def
        split: option.splits sum.splits)

lemma withdrawFunds_wallets: "wallets (snd (withdrawFunds dto uuid rejects s)) = wallets s"
proof (cases "getWalletBalance (wd_walletId dto) s")
  case (Pair r s0)
  note st = getWalletBalance_store [OF Pair]
  show ?thesis
    using Pair st
    by (cases r)
       (auto simp: withdrawFunds_def transaction_create_def Let_def transactionQueue_add_def
          split: option.splits)
qed

lemma transaction_create_pair_wallets:
  "transaction_create_pair a b s = Inr (txs, s') \<Longrightarrow> wallets s' = wallets s"
  by (auto simp: transaction_create_pair_def transaction_create_def
        split: option.splits sum.splits if_splits)

lemma transferFunds_wallets: "wallets (snd (transferFunds dto uuid1 uuid2 rejects s)) = wallets s"
proof (cases "getWalletBalance (tr_sourceWalletId dto) s")
  case (Pair r s0)
  note st = getWalletBalance_store [OF Pair]
  show ?thesis
    using Pair st transaction_create_pair_wallets
    by (cases r)
       (auto simp: transferFunds_def Let_def transactionQueue_add_def
          split: sum.splits option.splits)
qed

lemma deactivated_append:
  assumes "deactivated wid s" and "wallets s' = wallets s @ [w]"
      and "wallet_id w \<notin> set (map wallet_id (wallets s))"
  shows "deactivated wid s'"
proof -
  from assms(1) obtain x where x: "x \<in> set (wallets s)" "wallet_id x = wid"
    unfolding deactivated_def by blast
  with assms(3) have "wallet_id w \<noteq> wid" by force
  with assms(1) x show ?thesis
    unfolding deactivated_def assms(2) by auto
qed

lemma createWallet_deactivated:
  assumes "deactivated wid s"
  shows "deactivated wid (snd (createWallet dto new_id s))"
proof (cases "\<not> in_decimal_20_8 (case cw_initialBalance dto of Some b \<Rightarrow> b | None \<Rightarrow> 0)
              \<or> cw_userId dto \<in> set (map userId (wallets s))
              \<or> new_id \<in> set (map wallet_id (wallets s))")
  case True
  then show ?thesis using assms by (auto simp: createWallet_def Let_def)
next
  case False
  let ?w = "wallet_stored \<lparr>wallet_id = new_id, userId = cw_userId dto,
            balance = (case cw_initialBalance dto of Some b \<Rightarrow> b | None \<Rightarrow> 0),
            isActive = True, version = 0\<rparr>"
  have "wallets (snd (createWallet dto new_id s)) = wallets s @ [?w]"
    using False by (simp add: createWallet_def Let_def cacheWalletBalance_def)
  from assms this show ?thesis
    by (rule deactivated_append) (use False in \<open>simp add: wallet_stored_fields\<close>)
qed

lemma wallet_update_by_id_Inr:
  "wallet_update_by_id wid f s = Inr (w', s') \<Longrightarrow>
     s' = s\<lparr>wallets := map (\<lambda>w. if wallet_id w = wid then f w else w) (wallets s),
            wallet_writes := wallet_writes s @ [wid]\<rparr>"
  by (auto simp: wallet_update_by_id_def split: option.splits)

lemma deactivateWallet_cases:
  "(\<exists>e s0. deactivateWallet wid s = (Inl e, s0) \<and> wallets s0 = wallets s
        \<and> transactions s0 = transactions s \<and> transactionQueue s0 = transactionQueue s)
   \<or> (\<exists>w' s0 s1. deactivateWallet wid s = (Inr w', invalidateWalletCache wid s1)
        \<and> wallets s0 = wallets s \<and> transactions s0 = transactions s
        \<and> transactionQueue s0 = transactionQueue s
        \<and> wallet_update_by_id wid (\<lambda>w. w\<lparr>isActive := False\<rparr>) s0 = Inr (w', s1))"
proof (cases "getWallet wid s")
  case (Inl e)
  then show ?thesis by (simp add: deactivateWallet_def)
next
  case (Inr w)
  obtain r s0 where bal: "getWalletBalance wid s = (r, s0)" by (cases "getWalletBalance wid s")
  note st = getWalletBalance_store [OF bal]
  show ?thesis
  proof (cases r)
    case (Inl e)
    with Inr bal st show ?thesis by (simp add: deactivateWallet_def)
  next
    case right: (Inr b)
    show ?thesis
    proof (cases "b > 0")
      case True
      with Inr bal st right show ?thesis by (simp add: deactivateWallet_def)
    next
      case False
      show ?thesis
      proof (cases "wallet_update_by_id wid (\<lambda>w. w\<lparr>isActive := False\<rparr>) s0")
        case (Inl e)
        with Inr bal st right False show ?thesis by (simp add: deactivateWallet_def)
      next
        case upd: (Inr p)
        obtain w' s1 where p: "p = (w', s1)" by (cases p)
        have "deactivateWallet wid s = (Inr w', invalidateWalletCache wid s1)"
          using Inr bal right False upd p by (simp add: deactivateWallet_def)
        with st upd p show ?thesis by blast
      qed
    qed
  qed
qed

lemma deactivateWallet_deactivated:
  assumes "deactivated wid s"
  shows "deactivated wid (snd (deactivateWallet w s))"
  using deactivateWallet_cases [of w s]
proof (elim disjE exE conjE)
  fix e s0
  assume "deactivateWallet w s = (Inl e, s0)" "wallets s0 = wallets s"
  with assms show ?thesis by (simp add: deactivated_def)
next
  fix w' s0 s1
  assume run: "deactivateWallet w s = (Inr w', invalidateWalletCache w s1)"
     and s0: "wallets s0 = wallets s"
     and upd: "wallet_update_by_id w (\<lambda>w. w\<lparr>isActive := False\<rparr>) s0 = Inr (w', s1)"
  have d0: "deactivated wid s0" using assms s0 by (simp add: deactivated_def)
  have "wallets s1 = map (\<lambda>x. if wallet_id x = w then x\<lparr>isActive := False\<rparr> else x) (wallets s0)"
    using wallet_update_by_id_Inr [OF upd] by simp
  from this _ _ d0 have "deactivated wid s1"
    by (rule deactivated_map) (simp_all split: if_splits)
  then show ?thesis
    by (simp add: run invalidateWalletCache_def deactivated_def)
qed

lemma perform_deactivated:
  assumes "deactivated wid s"
  shows "deactivated wid (perform c s)"
proof (cases c)
  case (CreateWallet dto new_id)
  with createWallet_deactivated [OF assms] show ?thesis by simp
next
  case (GetWalletBalance w)
  obtain r s0 where bal: "getWalletBalance w s = (r, s0)" by (cases "getWalletBalance w s")
  from getWalletBalance_store [OF bal] assms have "deactivated wid s0"
    by (simp add: deactivated_def)
  with GetWalletBalance bal show ?thesis by simp
next
  case (DepositFunds dto uuid rejects)
  with assms depositFunds_wallets [of dto uuid rejects s] show ?thesis by (simp add: deactivated_def)
next
  case (WithdrawFunds dto uuid rejects)
  with assms withdrawFunds_wallets [of dto uuid rejects s] show ?thesis by (simp add: deactivated_def)
next
  case (TransferFunds dto uuid1 uuid2 rejects)
  with assms transferFunds_wallets [of dto uuid1 uuid2 rejects s] show ?thesis
    by (simp add: deactivated_def)
next
  case (DeactivateWallet w)
  with deactivateWallet_deactivated [OF assms] show ?thesis by simp
next
  case (Settle j evs)
  with settle_deactivated [OF assms] show ?thesis by simp
qed

lemma redis_get_del: "redis_get k (redis_del k kvs) = None"
  by (auto simp: redis_get_def redis_del_def map_of_eq_None_iff)

lemma find_Some_mem: "find P xs = Some x \<Longrightarrow> x \<in> set xs \<and> P x"
  by (induction xs) (auto split: if_splits)

lemma getWallet_row:
  assumes "getWallet wid s = Inr w"
  shows "\<exists>x. find (\<lambda>y. wallet_id y = wid) (wallets s) = Some x \<and> wallet_id x = wid"
proof -
  from getWallet_Inr [OF assms] have "\<exists>y. y \<in> set (wallets s) \<and> wallet_id y = wid" by blast
  then have "find (\<lambda>y. wallet_id y = wid) (wallets s) \<noteq> None"
    by (simp add: find_None_iff)
  then obtain x where x: "find (\<lambda>y. wallet_id y = wid) (wallets s) = Some x" by blast
  from find_Some_mem [OF this] x show ?thesis by blast
qed

lemma marks_deactivated:
  assumes "wallets s' = map g ws" and "x \<in> set ws" and "wallet_id x = wid"
      and "\<And>z. wallet_id (g z) = wallet_id z"
      and "\<And>z. wallet_id z = wid \<Longrightarrow> \<not> isActive (g z)"
  shows "deactivated wid s'"
  unfolding deactivated_def assms(1)
  by (simp add: assms(4)) (use assms(2,3,5) in blast)

lemma deactivateWallet_refused:
  assumes "getWallet wid s = Inr w" and "fst (getWalletBalance wid s) = Inr bal" and "0 < bal"
  shows "fst (deactivateWallet wid s)
           = Inl (BadRequestException ''Cannot deactivate wallet with non-zero balance'')"
    and "wallets (snd (deactivateWallet wid s)) = wallets s"
    and "transactions (snd (deactivateWallet wid s)) = transactions s"
    and "transactionQueue (snd (deactivateWallet wid s)) = transactionQueue s"
proof -
  obtain s0 where bal: "getWalletBalance wid s = (Inr bal, s0)"
    using assms(2) by (cases "getWalletBalance wid s") auto
  note st = getWalletBalance_store [OF bal]
  have run: "deactivateWallet wid s =
      (Inl (BadRequestException ''Cannot deactivate wallet with non-zero balance''), s0)"
    using assms(1,3) bal by (simp add: deactivateWallet_def)
  show "fst (deactivateWallet wid s)
           = Inl (BadRequestException ''Cannot deactivate wallet with non-zero balance'')"
    and "wallets (snd (deactivateWallet wid s)) = wallets s"
    and "transactions (snd (deactivateWallet wid s)) = transactions s"
    and "transactionQueue (snd (deactivateWallet wid s)) = transactionQueue s"
    using st by (simp_all add: run)
qed

lemma deactivateWallet_done:
  assumes "getWallet wid s = Inr w" and "fst (getWalletBalance wid s) = Inr bal" and "\<not> 0 < bal"
  shows "\<exists>w'. fst (deactivateWallet wid s) = Inr w' \<and> wallet_id w' = wid \<and> \<not> isActive w'"
    and "deactivated wid (snd (deactivateWallet wid s))"
    and "redis_get (cache_key wid) (redis (snd (deactivateWallet wid s))) = None"
proof -
  obtain s0 where bal: "getWalletBalance wid s = (Inr bal, s0)"
    using assms(2) by (cases "getWalletBalance wid s") auto
  note st = getWalletBalance_store [OF bal]
  from getWallet_row [OF assms(1)] st obtain x where
    x: "find (\<lambda>y. wallet_id y = wid) (wallets s0) = Some x" "wallet_id x = wid"
    by auto
  let ?s1 = "s0\<lparr>wallets := map (\<lambda>w'. if wallet_id w' = wid then w'\<lparr>isActive := False\<rparr> else w')
                               (wallets s0),
                wallet_writes := wallet_writes s0 @ [wid]\<rparr>"
  have upd: "wallet_update_by_id wid (\<lambda>w. w\<lparr>isActive := False\<rparr>) s0
      = Inr (x\<lparr>isActive := False\<rparr>, ?s1)"
    using x(1) by (simp add: wallet_update_by_id_def)
  have run: "deactivateWallet wid s = (Inr (x\<lparr>isActive := False\<rparr>), invalidateWalletCache wid ?s1)"
    using assms(1,3) bal upd by (simp add: deactivateWallet_def)
  show "\<exists>w'. fst (deactivateWallet wid s) = Inr w' \<and> wallet_id w' = wid \<and> \<not> isActive w'"
    using x(2) by (simp add: run)
  have mem: "x \<in> set (wallets s0)" using find_Some_mem [OF x(1)] by blast
  have ws1: "wallets ?s1 = map (\<lambda>w'. if wallet_id w' = wid then w'\<lparr>isActive := False\<rparr> else w')
      (wallets s0)"
    by simp
  from ws1 mem x(2) have "deactivated wid ?s1"
    by (rule marks_deactivated) simp_all
  then have "deactivated wid (invalidateWalletCache wid ?s1)"
    unfolding invalidateWalletCache_def by (simp only: deactivated_fields)
  then show "deactivated wid (snd (deactivateWallet wid s))"
    by (simp only: run snd_conv)
  show "redis_get (cache_key wid) (redis (snd (deactivateWallet wid s))) = None"
    by (simp add: run invalidateWalletCache_def redis_get_del)
qed

lemma balance_read_coherent:
  assumes "getWallet wid s = Inr w"
      and "redis_get (cache_key wid) (redis s) = None
           \<or> redis_get (cache_key wid) (redis s) = Some (balance w)"
  shows "fst (getWalletBalance wid s) = Inr (balance w)"
  using assms by (auto simp: getWalletBalance_def)

text \<open>
  What deactivateWallet does with the balance it reads. It decides on the value of
  getWalletBalance, which is the cached balance when the cache has one. On an active
  wallet: when that value is above 0 the call fails and the wallets, the ledger and the
  queue stay as they were; otherwise it succeeds, every row of this id is inactive
  afterwards and the cache entry is gone. When the cache has no entry or agrees with
  the store, and the balance is not negative, it succeeds exactly when the balance is 0.
  No call makes a deactivated wallet active again.
\<close>

lemma deactivation_guard:
  "(getWallet wid s = Inr w \<and> fst (getWalletBalance wid s) = Inr bal \<and> 0 < bal \<longrightarrow>
      fst (deactivateWallet wid s)
        = Inl (BadRequestException ''Cannot deactivate wallet with non-zero balance'')
    \<and> wallets (snd (deactivateWallet wid s)) = wallets s
    \<and> transactions (snd (deactivateWallet wid s)) = transactions s
    \<and> transactionQueue (snd (deactivateWallet wid s)) = transactionQueue s)
   \<and> (getWallet wid s = Inr w \<and> fst (getWalletBalance wid s) = Inr bal \<and> \<not> 0 < bal \<longrightarrow>
      (\<exists>w'. fst (deactivateWallet wid s) = Inr w' \<and> wallet_id w' = wid \<and> \<not> isActive w')
    \<and> deactivated wid (snd (deactivateWallet wid s))
    \<and> redis_get (cache_key wid) (redis (snd (deactivateWallet wid s))) = None)
   \<and> (getWallet wid s = Inr w
        \<and> (redis_get (cache_key wid) (redis s) = None
            \<or> redis_get (cache_key wid) (redis s) = Some (balance w))
        \<and> 0 \<le> balance w \<longrightarrow>
      ((\<exists>w'. fst (deactivateWallet wid s) = Inr w') \<longleftrightarrow> balance w = 0))
   \<and> (deactivated wid s \<longrightarrow> deactivated wid (perform c s))"
proof (intro conjI impI)
  assume h: "getWallet wid s = Inr w \<and> fst (getWalletBalance wid s) = Inr bal \<and> 0 < bal"
  then have a: "getWallet wid s = Inr w" and b: "fst (getWalletBalance wid s) = Inr bal"
    and c: "0 < bal" by blast+
  show "fst (deactivateWallet wid s)
        = Inl (BadRequestException ''Cannot deactivate wallet with non-zero balance'')"
    by (rule deactivateWallet_refused [OF a b c])
  show "wallets (snd (deactivateWallet wid s)) = wallets s"
    by (rule deactivateWallet_refused [OF a b c])
  show "transactions (snd (deactivateWallet wid s)) = transactions s"
    by (rule deactivateWallet_refused [OF a b c])
  show "transactionQueue (snd (deactivateWallet wid s)) = transactionQueue s"
    by (rule deactivateWallet_refused [OF a b c])
next
  assume h: "getWallet wid s = Inr w \<and> fst (getWalletBalance wid s) = Inr bal \<and> \<not> 0 < bal"
  then have a: "getWallet wid s = Inr w" and b: "fst (getWalletBalance wid s) = Inr bal"
    and c: "\<not> 0 < bal" by blast+
  show "\<exists>w'. fst (deactivateWallet wid s) = Inr w' \<and> wallet_id w' = wid \<and> \<not> isActive w'"
    by (rule deactivateWallet_done [OF a b c])
  show "deactivated wid (snd (deactivateWallet wid s))"
    by (rule deactivateWallet_done [OF a b c])
  show "redis_get (cache_key wid) (redis (snd (deactivateWallet wid s))) = None"
    by (rule deactivateWallet_done [OF a b c])
next
  assume h: "getWallet wid s = Inr w
        \<and> (redis_get (cache_key wid) (redis s) = None
            \<or> redis_get (cache_key wid) (redis s) = Some (balance w))
        \<and> 0 \<le> balance w"
  then have a: "getWallet wid s = Inr w" and nn: "0 \<le> balance w"
    and co: "redis_get (cache_key wid) (redis s) = None
            \<or> redis_get (cache_key wid) (redis s) = Some (balance w)"
    by blast+
  note b = balance_read_coherent [OF a co]
  show "(\<exists>w'. fst (deactivateWallet wid s) = Inr w') \<longleftrightarrow> balance w = 0"
  proof (cases "0 < balance w")
    case True
    from deactivateWallet_refused(1) [OF a b True] True show ?thesis by simp
  next
    case False
    with nn have "balance w = 0" by simp
    moreover from deactivateWallet_done(1) [OF a b False]
    have "\<exists>w'. fst (deactivateWallet wid s) = Inr w'" by blast
    ultimately show ?thesis by simp
  qed
next
  assume "deactivated wid s"
  then show "deactivated wid (perform c s)" by (rule perform_deactivated)
qed

lemma deactivation_guard_example:
  "fst (deactivateWallet ''wallet-a'' store_example)
     = Inl (BadRequestException ''Cannot deactivate wallet with non-zero balance'')
   \<and> wallets (snd (deactivateWallet ''wallet-a'' store_example)) = wallets store_example
   \<and> deactivated ''wallet-b'' (snd (deactivateWallet ''wallet-b'' store_example))
   \<and> redis_get (cache_key ''wallet-b'') (redis (snd (deactivateWallet ''wallet-b'' store_example)))
       = None
   \<and> (\<exists>w'. fst (deactivateWallet ''wallet-b'' store_example) = Inr w')
   \<and> deactivated ''wallet-c''
       (perform (Settle (deposit_job ''wallet-c'' 5 None ''tx-9'') []) store_example)"
proof -
  let ?a = "\<lparr>wallet_id = ''wallet-a'', userId = ''user-1'', balance = 100, isActive = True,
             version = 1\<rparr>"
  let ?b = "\<lparr>wallet_id = ''wallet-b'', userId = ''user-2'', balance = 0, isActive = True,
             version = 0\<rparr>"
  note ta = deactivation_guard [where wid = "''wallet-a''" and s = store_example and w = ?a
      and bal = 100]
  note tb = deactivation_guard [where wid = "''wallet-b''" and s = store_example and w = ?b
      and bal = 0]
  note tc = deactivation_guard [where wid = "''wallet-c''" and s = store_example
      and c = "Settle (deposit_job ''wallet-c'' 5 None ''tx-9'') []"]
  have ga: "getWallet ''wallet-a'' store_example = Inr ?a"
    and gb: "getWallet ''wallet-b'' store_example = Inr ?b"
    by (simp_all add: store_example_def getWallet_def wallet_findFirst_active_def)
  have miss: "redis_get (cache_key ''wallet-a'') (redis store_example) = None"
      "redis_get (cache_key ''wallet-b'') (redis store_example) = None"
    by (simp_all add: store_example_def redis_get_def)
  have ba: "fst (getWalletBalance ''wallet-a'' store_example) = Inr 100"
    using ga miss by (simp add: getWalletBalance_def)
  have bb: "fst (getWalletBalance ''wallet-b'' store_example) = Inr 0"
    using gb miss by (simp add: getWalletBalance_def)
  have dc: "deactivated ''wallet-c'' store_example"
    unfolding deactivated_def by (simp add: store_example_def)
  have pos: "(0 :: rat) < 100" and zero: "\<not> (0 :: rat) < 0" "(0 :: rat) \<le> balance ?b"
      "balance ?b = 0"
    by simp_all
  from ta ga ba pos have 1: "fst (deactivateWallet ''wallet-a'' store_example)
      = Inl (BadRequestException ''Cannot deactivate wallet with non-zero balance'')"
    and 2: "wallets (snd (deactivateWallet ''wallet-a'' store_example)) = wallets store_example"
    by blast+
  from tb gb bb zero(1) have 3: "deactivated ''wallet-b''
      (snd (deactivateWallet ''wallet-b'' store_example))"
    and 4: "redis_get (cache_key ''wallet-b'')
      (redis (snd (deactivateWallet ''wallet-b'' store_example))) = None"
    by blast+
  from tb gb miss(2) zero(2,3) have 5: "\<exists>w'. fst (deactivateWallet ''wallet-b'' store_example) = Inr w'"
    by blast
  from tc dc have 6: "deactivated ''wallet-c''
      (perform (Settle (deposit_job ''wallet-c'' 5 None ''tx-9'') []) store_example)"
    by blast
  from 1 2 3 4 5 6 show ?thesis by (intro conjI)
qed

text \<open>
  Claim C9 on the code. The guard of deactivateWallet is on the balance getWalletBalance
  returns, and that is the cache entry when there is one. With the store at 100 for
  wallet-a and the cache entry at 0, deactivateWallet succeeds: the row is inactive and
  still holds 100. Such an entry is left by the service itself: processWithdrawal
  writes the new balance to the cache inside the callback, before the commit; when the
  commit fails the store rolls back and the cache keeps the value. Here the withdrawal
  of 100 fails at commit three times, the store still holds 100, the cache holds 0, and
  the deactivation that follows goes through.
\<close>

theorem stale_cache_deactivates_funded_wallet:
  "wallet_findUnique ''wallet-a'' (wallets stale_example)
     = Some \<lparr>wallet_id = ''wallet-a'', userId = ''user-1'', balance = 100, isActive = True,
             version = 1\<rparr>
   \<and> fst (deactivateWallet ''wallet-a'' stale_example)
     = Inr \<lparr>wallet_id = ''wallet-a'', userId = ''user-1'', balance = 100, isActive = False,
            version = 1\<rparr>
   \<and> wallet_findUnique ''wallet-a'' (wallets (snd (deactivateWallet ''wallet-a'' stale_example)))
     = Some \<lparr>wallet_id = ''wallet-a'', userId = ''user-1'', balance = 100, isActive = False,
             version = 1\<rparr>
   \<and> wallet_findUnique ''wallet-a''
       (wallets (perform (DeactivateWallet ''wallet-a'')
          (perform (Settle (withdrawal_job ''wallet-a'' 100 None ''tx-8'')
                      [CommitFault ''P2028'', CommitFault ''P2028'', CommitFault ''P2028''])
             store_example)))
     = Some \<lparr>wallet_id = ''wallet-a'', userId = ''user-1'', balance = 100, isActive = False,
             version = 1\<rparr>"
  by code_simp

section \<open>Balances and versions under settlement\<close>

lemma sound_update:
  assumes ok: "distinct (map wallet_id (wallets s)) \<and> (\<forall>x \<in> set (wallets s). 0 \<le> balance x)"
      and upd: "wallet_update w v f s = Inr (w', s')"
      and id: "\<And>x. wallet_id (f x) = wallet_id x"
      and nn: "\<And>x. x \<in> set (wallets s) \<Longrightarrow> wallet_id x = w \<Longrightarrow> version x = v \<Longrightarrow> 0 \<le> balance (f x)"
  shows "distinct (map wallet_id (wallets s')) \<and> (\<forall>x \<in> set (wallets s'). 0 \<le> balance x)"
proof -
  let ?g = "\<lambda>x. if wallet_id x = w \<and> version x = v then wallet_stored (f x) else x"
  have ws: "wallets s' = map ?g (wallets s)"
    using wallet_update_Inr [OF upd] by simp
  have gid: "wallet_id (?g x) = wallet_id x" for x using id by (simp add: wallet_stored_fields)
  have "map wallet_id (map ?g (wallets s)) = map (\<lambda>x. wallet_id (?g x)) (wallets s)"
    by (simp only: map_map comp_def)
  also have "\<dots> = map wallet_id (wallets s)"
    by (rule map_cong [OF refl]) (simp add: id wallet_stored_fields)
  finally have mapeq: "map wallet_id (map ?g (wallets s)) = map wallet_id (wallets s)" .
  from ok have "distinct (map wallet_id (wallets s))" ..
  then have d: "distinct (map wallet_id (wallets s'))" by (simp only: ws mapeq)
  have "0 \<le> balance y" if "y \<in> set (wallets s')" for y
  proof -
    from that obtain x where x: "x \<in> set (wallets s)" "y = ?g x" unfolding ws by auto
    show ?thesis
    proof (cases "wallet_id x = w \<and> version x = v")
      case True
      with x nn [of x] show ?thesis by (simp add: wallet_stored_fields round8_nonneg)
    next
      case False
      with x ok show ?thesis by simp
    qed
  qed
  with d show ?thesis by blast
qed

lemma only_row:
  "distinct (map wallet_id ws) \<Longrightarrow> x \<in> set ws \<Longrightarrow> y \<in> set ws \<Longrightarrow>
     wallet_id x = wallet_id y \<Longrightarrow> x = y"
  by (meson distinct_map inj_onD)

lemma unit_of_sound:
  assumes ok: "distinct (map wallet_id (wallets s)) \<and> (\<forall>x \<in> set (wallets s). 0 \<le> balance x)"
      and run: "unit_of j (\<lambda>x. x) s = Inr (u, s')"
      and amt: "case j of deposit_job _ a _ _ \<Rightarrow> 0 \<le> a | withdrawal_job _ a _ _ \<Rightarrow> 0 \<le> a
                | transfer_job _ _ a _ _ \<Rightarrow> 0 \<le> a"
  shows "distinct (map wallet_id (wallets s')) \<and> (\<forall>x \<in> set (wallets s'). 0 \<le> balance x)"
proof (cases j)
  case (deposit_job w a d tid)
  with run have "deposit_unit w a tid (\<lambda>x. x) s = Inr (u, s')" by (simp add: unit_of_def)
  from deposit_unit_Inr [OF this] obtain x :: Wallet and w1 s1 where
    u1: "wallet_update w (version x)
       (\<lambda>x. x\<lparr>balance := balance x + a, version := version x + 1\<rparr>) s = Inr (w1, s1)"
    and eq: "wallets s' = wallets s1"
    by blast
  from amt deposit_job have "0 \<le> a" by simp
  with ok have "\<And>y. y \<in> set (wallets s) \<Longrightarrow> 0 \<le> balance y + a" by fastforce
  with sound_update [OF ok u1] show ?thesis unfolding eq by simp
next
  case (withdrawal_job w a d tid)
  with run have "withdrawal_unit w a tid (\<lambda>x. x) s = Inr (u, s')" by (simp add: unit_of_def)
  from withdrawal_unit_Inr [OF this] obtain x :: Wallet and w1 s1 where
    x: "wallet_findUnique w (wallets s) = Some x" "\<not> balance x < a"
    and u1: "wallet_update w (version x)
       (\<lambda>x. x\<lparr>balance := balance x - a, version := version x + 1\<rparr>) s = Inr (w1, s1)"
    and eq: "wallets s' = wallets s1"
    by blast
  from find_Some_mem [OF x(1) [unfolded wallet_findUnique_def]]
  have xm: "x \<in> set (wallets s)" "wallet_id x = w" by blast+
  have "0 \<le> balance y - a" if "y \<in> set (wallets s)" "wallet_id y = w" for y
  proof -
    from only_row [OF _ that(1) xm(1)] ok that(2) xm(2) have "y = x" by simp
    with x(2) show ?thesis by simp
  qed
  with sound_update [OF ok u1] show ?thesis unfolding eq by simp
next
  case (transfer_job src dst a d rid)
  with run have "transfer_unit src dst a rid (\<lambda>x. x) s = Inr (u, s')" by (simp add: unit_of_def)
  from transfer_unit_Inr [OF this] obtain ws wd :: Wallet and w1 s1 w2 s2 where
    f: "find (\<lambda>w. wallet_id w = src) (wallet_findMany_in (sort [src, dst]) (wallets s)) = Some ws"
    and en: "\<not> balance ws < a"
    and u1: "wallet_update src (version ws)
       (\<lambda>x. x\<lparr>balance := balance x - a, version := version x + 1\<rparr>) s = Inr (w1, s1)"
    and u2: "wallet_update dst (version wd)
       (\<lambda>x. x\<lparr>balance := balance x + a, version := version x + 1\<rparr>) s1 = Inr (w2, s2)"
    and eq: "wallets s' = wallets s2"
    by blast
  from find_Some_mem [OF f] have xm: "ws \<in> set (wallets s)" "wallet_id ws = src"
    by (simp_all add: wallet_findMany_in_def)
  have "0 \<le> balance y - a" if "y \<in> set (wallets s)" "wallet_id y = src" for y
  proof -
    from only_row [OF _ that(1) xm(1)] ok that(2) xm(2) have "y = ws" by simp
    with en show ?thesis by simp
  qed
  with sound_update [OF ok u1] have ok1:
    "distinct (map wallet_id (wallets s1)) \<and> (\<forall>x \<in> set (wallets s1). 0 \<le> balance x)"
    by simp
  from amt transfer_job have "0 \<le> a" by simp
  with ok1 have "\<And>y. y \<in> set (wallets s1) \<Longrightarrow> 0 \<le> balance y + a" by fastforce
  with sound_update [OF ok1 u2] show ?thesis unfolding eq by simp
qed

lemma other_commit_Quiet: "other_commit Quiet = (\<lambda>x. x)"
  by (rule ext) (simp add: other_commit_def)

lemma attempt_sound:
  assumes ok: "distinct (map wallet_id (wallets s)) \<and> (\<forall>x \<in> set (wallets s). 0 \<le> balance x)"
      and run: "prisma_transaction (unit_of j) ev s = (r, s')"
      and amt: "case j of deposit_job _ a _ _ \<Rightarrow> 0 \<le> a | withdrawal_job _ a _ _ \<Rightarrow> 0 \<le> a
                | transfer_job _ _ a _ _ \<Rightarrow> 0 \<le> a"
      and ev: "case ev of OtherCommit _ _ \<Rightarrow> False | _ \<Rightarrow> True"
  shows "distinct (map wallet_id (wallets s')) \<and> (\<forall>x \<in> set (wallets s'). 0 \<le> balance x)"
proof (cases ev)
  case Quiet
  show ?thesis
  proof (cases "unit_of j (\<lambda>x. x) s")
    case (Inl e)
    with run Quiet ok show ?thesis
      by (simp add: prisma_transaction_def other_commit_Quiet)
  next
    case (Inr p)
    obtain u b where p: "p = (u, b)" by (cases p)
    from run Quiet Inr p have "s' = b"
      by (simp add: prisma_transaction_def other_commit_Quiet)
    with unit_of_sound [OF ok Inr [unfolded p] amt] show ?thesis by simp
  qed
next
  case (StoreFault c)
  with run ok show ?thesis by (simp add: prisma_transaction_def)
next
  case (CommitFault c)
  from run CommitFault have "wallets s' = wallets s"
    by (auto simp: prisma_transaction_def split: sum.splits)
  with ok show ?thesis by simp
next
  case (OtherCommit w d)
  with ev show ?thesis by simp
qed

lemma settle_sound:
  assumes ok: "distinct (map wallet_id (wallets s)) \<and> (\<forall>x \<in> set (wallets s). 0 \<le> balance x)"
      and amt: "case j of deposit_job _ a _ _ \<Rightarrow> 0 \<le> a | withdrawal_job _ a _ _ \<Rightarrow> 0 \<le> a
                | transfer_job _ _ a _ _ \<Rightarrow> 0 \<le> a"
      and evs: "list_all (\<lambda>ev. case ev of OtherCommit _ _ \<Rightarrow> False | _ \<Rightarrow> True) evs"
  shows "distinct (map wallet_id (wallets (fst (snd (handle j evs s)))))
       \<and> (\<forall>x \<in> set (wallets (fst (snd (handle j evs s)))). 0 \<le> balance x)"
proof -
  let ?ok = "\<lambda>a. distinct (map wallet_id (wallets a)) \<and> (\<forall>x \<in> set (wallets a). 0 \<le> balance x)"
  let ?run = "executeTransaction_loop (unit_of j) 3 0 None evs [] s"
  have step: "?ok b \<and> True"
    if "ev \<in> insert Quiet (set evs)" "?ok a" "prisma_transaction (unit_of j) ev a = (r, b)"
    for ev a r b
  proof -
    from that(1) evs have "case ev of OtherCommit _ _ \<Rightarrow> False | _ \<Rightarrow> True"
      by (auto simp: list_all_iff)
    from attempt_sound [OF that(2,3) amt this] show ?thesis by simp
  qed
  have "?ok (fst (snd ?run)) \<and> True"
  proof (rule loop_post [where P = ?ok and Q = "\<lambda>_ _. True"])
    fix ev a r b
    assume "ev \<in> insert Quiet (set evs)" "?ok a" "prisma_transaction (unit_of j) ev a = (r, b)"
    then show "?ok b \<and> True" by (rule step)
  next
    show "?ok s" by (rule ok)
  next
    show "(0 :: nat) < 3" by simp
  qed
  then have inv: "?ok (fst (snd ?run))" ..
  have same: "wallets (fst (snd (handle j evs s))) = wallets (fst (snd ?run))"
  proof (cases ?run)
    case (fields r s' sl)
    then show ?thesis
      by (cases r)
         (simp_all add: handle_unfold executeTransaction_def transaction_updateMany_def)
  qed
  from inv show ?thesis unfolding same .
qed

end
